theory Spec2Isabelle
  imports Main "HOL-Library.Sublist"
begin

section \<open>The credentials file: \<open>update_env_file\<close>\<close>

text \<open>
  \<^verbatim>\<open>run_browser_automation.py\<close>, \<open>BrowserAutomationLauncher.update_env_file\<close>:
  \<^verbatim>\<open>
    if self.env_file.exists():
        with open(self.env_file, 'r') as f:
            lines = f.readlines()
        updated = False
        for i, line in enumerate(lines):
            if line.startswith(f"{key_name}="):
                lines[i] = f"{key_name}={key_value}\n"
                updated = True
                break
        if not updated:
            lines.append(f"{key_name}={key_value}\n")
        with open(self.env_file, 'w') as f:
            f.writelines(lines)
  \<close>
  The file is its text (\<open>None\<close> when it does not exist), as Python's text layer presents
  it: a string in which a line ends at \<open>\<newline>\<close>.
\<close>

type_synonym pyfile = "string option"

text \<open>\<open>f.readlines()\<close>: the text cut after every newline; each line keeps its newline, and
  the last one has none when the text does not end with one.\<close>

fun readlines :: "string \<Rightarrow> string list" where
  "readlines [] = []"
| "readlines (c # cs) =
     (if c = CHR ''\<newline>'' then [c] # readlines cs
      else (case readlines cs of [] \<Rightarrow> [[c]] | l # ls \<Rightarrow> (c # l) # ls))"

text \<open>\<open>f.writelines(lines)\<close> writes the strings one after the other and adds no separator.\<close>

definition writelines :: "string list \<Rightarrow> string" where
  "writelines ls = concat ls"

definition env_line :: "string \<Rightarrow> string \<Rightarrow> string" where
  "env_line key_name key_value = key_name @ ''='' @ key_value @ ''\<newline>''"

text \<open>The \<open>for\<close> loop with its \<open>break\<close>: the first line that starts with \<open>key_name=\<close> is
  replaced, the result is the list and the flag \<open>updated\<close>.\<close>

fun update_first :: "string \<Rightarrow> string \<Rightarrow> string list \<Rightarrow> string list \<times> bool" where
  "update_first key_name key_value [] = ([], False)"
| "update_first key_name key_value (line # rest) =
     (if prefix (key_name @ ''='') line then (env_line key_name key_value # rest, True)
      else (case update_first key_name key_value rest of
              (rest', updated) \<Rightarrow> (line # rest', updated)))"

definition update_lines :: "string \<Rightarrow> string \<Rightarrow> string list \<Rightarrow> string list" where
  "update_lines key_name key_value ls =
     (case update_first key_name key_value ls of
        (ls', updated) \<Rightarrow>
          if \<not> updated then ls' @ [env_line key_name key_value] else ls')"

definition update_env_file :: "pyfile \<Rightarrow> string \<Rightarrow> string \<Rightarrow> pyfile" where
  "update_env_file env_file key_name key_value =
     (case env_file of
        None \<Rightarrow> None
      | Some text \<Rightarrow> Some (writelines (update_lines key_name key_value (readlines text))))"

text \<open>A line of the file belongs to the key when it starts with \<open>key_name=\<close>.\<close>

definition key_line :: "string \<Rightarrow> string \<Rightarrow> bool" where
  "key_line key_name line = prefix (key_name @ ''='') line"


section \<open>Python values, exceptions and the world outside the scripts\<close>

text \<open>
  The process environment \<open>os.environ\<close>: \<open>os.getenv(k)\<close> is \<open>env k\<close>, \<open>None\<close> for a
  variable that is not set. A value used as a condition (\<open>if os.getenv(k):\<close>) is true
  when it is set and not the empty string.
\<close>

type_synonym env = "string \<rightharpoonup> string"

definition truthy :: "string option \<Rightarrow> bool" where
  "truthy v = (case v of None \<Rightarrow> False | Some s \<Rightarrow> s \<noteq> [])"

datatype pyval = PBool bool | PInt int | PStr string

text \<open>An object built by \<open>Class(kw=value, ...)\<close> of one of the LangChain client libraries:
  the class and the keyword arguments, in the order of the source.\<close>

datatype llm = ChatModel (llm_class: string) (llm_kwargs: "(string \<times> string option) list")

text \<open>
  The exceptions that the scripts raise, catch or let pass: \<open>ValueError\<close> with its
  message, \<open>ImportError\<close> with the module, \<open>subprocess.CalledProcessError\<close> with the
  command, \<open>FileNotFoundError\<close> with the program that is not there, \<open>IndexError\<close>, and
  \<open>LibraryError\<close> for any other \<open>Exception\<close> that a call into an imported library
  raises. Exceptions outside \<open>Exception\<close> (\<open>KeyboardInterrupt\<close>, \<open>SystemExit\<close>) are not
  modelled.
\<close>

datatype exn =
    ValueError string
  | ImportError string
  | CalledProcessError "string list"
  | FileNotFoundError string
  | IndexError string
  | LibraryError string

definition quoted :: "string \<Rightarrow> string" where
  "quoted s = [CHR 0x27] @ s @ [CHR 0x27]"

fun words_joined :: "string list \<Rightarrow> string" where
  "words_joined [] = []"
| "words_joined [a] = quoted a"
| "words_joined (a # b # rest) = quoted a @ '', '' @ words_joined (b # rest)"

text \<open>\<open>str(e)\<close>, as the f-strings of the \<open>except\<close> blocks print it. The text for
  \<open>CalledProcessError\<close> stops before the exit status, which the model does not keep.\<close>

fun exn_str :: "exn \<Rightarrow> string" where
  "exn_str (ValueError msg) = msg"
| "exn_str (ImportError name) = ''No module named '' @ quoted name"
| "exn_str (CalledProcessError argv) =
     ''Command '' @ quoted (''['' @ words_joined argv @ '']'') @ '' returned non-zero exit status''"
| "exn_str (FileNotFoundError prog) =
     ''[Errno 2] No such file or directory: '' @ quoted prog"
| "exn_str (IndexError msg) = msg"
| "exn_str (LibraryError msg) = msg"

fun is_ImportError :: "exn \<Rightarrow> bool" where
  "is_ImportError (ImportError name) = True"
| "is_ImportError e = False"

fun is_CalledProcessError :: "exn \<Rightarrow> bool" where
  "is_CalledProcessError (CalledProcessError argv) = True"
| "is_CalledProcessError e = False"

fun is_FileNotFoundError :: "exn \<Rightarrow> bool" where
  "is_FileNotFoundError (FileNotFoundError prog) = True"
| "is_FileNotFoundError e = False"

text \<open>How a child process started by \<open>subprocess.run(argv, check=True)\<close> ends: with exit
  status 0, with another exit status, or not at all because the program \<open>argv[0]\<close> is not
  found.\<close>

datatype proc_outcome = Exit0 | ExitNonzero | NoSuchProgram

text \<open>
  What the scripts observe from outside themselves. A step that prints, starts a process,
  writes a file or calls into the browser-automation library leaves an event; the events
  of a run, in order, are its trace. The text of a \<open>Print\<close> is the printed text without
  its emoji and the blanks after it.
\<close>

datatype event =
    Print string
  | Subprocess "string list"
  | LoadDotenv
  | NewChatModel llm
  | NewBrowser "(string \<times> pyval) list"
  | NewAgent string llm "(string \<times> pyval) list"
  | AwaitArun
  | WriteFile string
  | Chmod string

text \<open>
  The world: the outcome of everything that the scripts do not decide themselves. The
  libraries (python-dotenv, browser-use, the LangChain clients) are not part of the
  repository; each call into them is a field here, and may raise.
  \<^item> \<open>module_found m\<close>: an \<open>import\<close> of \<open>m\<close> succeeds; \<open>module_found_after_pip m\<close>: it
    succeeds when tried again after \<open>pip install\<close> has run;
  \<^item> \<open>process_exit argv\<close>: how the process started with \<open>argv\<close> ends;
  \<^item> \<open>load_dotenv_override\<close>: what \<open>load_dotenv(override=True)\<close> makes of \<open>os.environ\<close>;
  \<^item> \<open>chat_model_init\<close>, \<open>browser_init\<close>, \<open>agent_init\<close>: the exception that the
    constructor raises, if any; \<open>agent_arun\<close>: the exception or the result (as printed) of
    awaiting \<open>agent.arun()\<close>;
  \<^item> \<open>sys_executable\<close>, \<open>sys_version\<close>: \<open>sys.executable\<close> and \<open>sys.version\<close>;
    \<open>version_info\<close>: the major and minor number of \<open>sys.version_info\<close>;
    \<open>platform_system\<close>: \<open>platform.system().lower()\<close>;
    \<open>int_max_str_digits\<close>: \<open>sys.get_int_max_str_digits()\<close>, 0 where the interpreter has
    no such limit;
  \<^item> \<open>termux_dir_exists\<close>: \<open>os.path.exists("/data/data/com.termux")\<close>;
    \<open>env_file_exists\<close>: \<open>self.env_file.exists()\<close> when the desktop setup asks;
  \<^item> \<open>setup_path name\<close>: the text of the path \<open>self.setup_dir / name\<close>.
\<close>

record world =
  sys_executable :: string
  sys_version :: string
  version_info :: "nat \<times> nat"
  int_max_str_digits :: nat
  platform_system :: string
  module_found :: "string \<Rightarrow> bool"
  module_found_after_pip :: "string \<Rightarrow> bool"
  process_exit :: "string list \<Rightarrow> proc_outcome"
  load_dotenv_override :: "env \<Rightarrow> env"
  chat_model_init :: "llm \<Rightarrow> exn option"
  browser_init :: "(string \<times> pyval) list \<Rightarrow> exn option"
  agent_init :: "string \<Rightarrow> llm \<Rightarrow> (string \<times> pyval) list \<Rightarrow> exn option"
  agent_arun :: "string \<Rightarrow> llm \<Rightarrow> (string \<times> pyval) list \<Rightarrow> exn + string"
  termux_dir_exists :: bool
  env_file_exists :: bool
  setup_path :: "string \<Rightarrow> string"

text \<open>A computation: the trace it leaves, and the exception it raises (\<open>Inl\<close>) or the
  value it returns (\<open>Inr\<close>).\<close>

type_synonym 'a comp = "event list \<times> (exn + 'a)"

definition ret :: "'a \<Rightarrow> 'a comp" where
  "ret x = ([], Inr x)"

definition raise :: "exn \<Rightarrow> 'a comp" where
  "raise e = ([], Inl e)"

definition emit :: "event \<Rightarrow> unit comp" where
  "emit ev = ([ev], Inr ())"

definition py_print :: "string \<Rightarrow> unit comp" where
  "py_print s = emit (Print s)"

text \<open>Statements in sequence: the second runs with the value of the first, unless the
  first raises.\<close>

definition and_then :: "'a comp \<Rightarrow> ('a \<Rightarrow> 'b comp) \<Rightarrow> 'b comp" where
  "and_then m f =
     (case m of
        (t, Inl e) \<Rightarrow> (t, Inl e)
      | (t, Inr x) \<Rightarrow> (case f x of (t', r) \<Rightarrow> (t @ t', r)))"

text \<open>\<open>try: m except E as e: h e\<close>, where \<open>handles\<close> tells the exceptions of \<open>E\<close>.\<close>

definition try_except :: "'a comp \<Rightarrow> (exn \<Rightarrow> bool) \<Rightarrow> (exn \<Rightarrow> 'a comp) \<Rightarrow> 'a comp" where
  "try_except m handles h =
     (case m of
        (t, Inl e) \<Rightarrow>
          (if handles e then (case h e of (t', r) \<Rightarrow> (t @ t', r)) else (t, Inl e))
      | (t, Inr x) \<Rightarrow> (t, Inr x))"

definition import_module :: "world \<Rightarrow> string \<Rightarrow> unit comp" where
  "import_module w name = (if module_found w name then ret () else raise (ImportError name))"

definition import_after_pip :: "world \<Rightarrow> string \<Rightarrow> unit comp" where
  "import_after_pip w name =
     (if module_found_after_pip w name then ret () else raise (ImportError name))"

text \<open>\<open>subprocess.run(argv, check=True)\<close>: a non-zero exit status raises
  \<open>CalledProcessError\<close>, a program that is not found raises \<open>FileNotFoundError\<close>.\<close>

definition subprocess_run :: "world \<Rightarrow> string list \<Rightarrow> unit comp" where
  "subprocess_run w argv =
     and_then (emit (Subprocess argv)) (\<lambda>_.
       case process_exit w argv of
         Exit0 \<Rightarrow> ret ()
       | ExitNonzero \<Rightarrow> raise (CalledProcessError argv)
       | NoSuchProgram \<Rightarrow> raise (FileNotFoundError (case argv of [] \<Rightarrow> [] | a # _ \<Rightarrow> a)))"

text \<open>\<open>subprocess.run(argv, check=True, shell=True)\<close> on a POSIX system starts
  \<open>/bin/sh -c argv[0] argv[1] ...\<close>; the \<open>CalledProcessError\<close> of a non-zero exit status
  carries \<open>argv\<close> as it was passed.\<close>

definition subprocess_run_shell :: "world \<Rightarrow> string list \<Rightarrow> unit comp" where
  "subprocess_run_shell w argv =
     and_then (emit (Subprocess (''/bin/sh'' # ''-c'' # argv))) (\<lambda>_.
       case process_exit w (''/bin/sh'' # ''-c'' # argv) of
         Exit0 \<Rightarrow> ret ()
       | ExitNonzero \<Rightarrow> raise (CalledProcessError argv)
       | NoSuchProgram \<Rightarrow> raise (FileNotFoundError ''/bin/sh''))"


section \<open>Python's \<open>int\<close> of a string\<close>

text \<open>
  \<open>int(s)\<close> in base 10, for a string of code points below 256. Blanks around the
  literal are skipped: the characters 9 to 13, 32, 133 and 160, and no others (the
  characters 28 to 31, which \<open>str.isspace\<close> and \<open>str.split\<close> count as blanks, make \<open>int\<close>
  raise). A sign may come first, then decimal digits, where one underscore may stand
  between two digits. The interpreter reads the run of digits and underscores first: a
  run that is not well formed is an invalid literal; a well-formed run with more digits
  than \<open>sys.get_int_max_str_digits()\<close> (when that limit is not 0) exceeds the limit;
  anything left after the run is an invalid literal. Each failure raises \<open>ValueError\<close>.
\<close>

definition int_blank :: "char \<Rightarrow> bool" where
  "int_blank c = ((of_char c :: nat) \<in> set [9, 10, 11, 12, 13, 32, 133, 160])"

text \<open>\<open>str.isspace\<close>, which \<open>str.split()\<close> splits at.\<close>

definition py_isspace :: "char \<Rightarrow> bool" where
  "py_isspace c = ((of_char c :: nat) \<in> set [9, 10, 11, 12, 13, 28, 29, 30, 31, 32, 133, 160])"

definition py_isdigit :: "char \<Rightarrow> bool" where
  "py_isdigit c = (c \<in> set ''0123456789'')"

definition digit_value :: "char \<Rightarrow> nat" where
  "digit_value c = of_char c - 48"

definition int_strip :: "string \<Rightarrow> string" where
  "int_strip s = rev (dropWhile int_blank (rev (dropWhile int_blank s)))"

fun digits_after :: "nat \<Rightarrow> string \<Rightarrow> nat option" where
  "digits_after acc [] = Some acc"
| "digits_after acc (c # cs) =
     (if py_isdigit c then digits_after (10 * acc + digit_value c) cs
      else if c = CHR ''_'' then
        (case cs of
           [] \<Rightarrow> None
         | d # ds \<Rightarrow> if py_isdigit d then digits_after (10 * acc + digit_value d) ds else None)
      else None)"

text \<open>The value of a well-formed run of digits and underscores.\<close>

definition unsigned_literal :: "string \<Rightarrow> nat option" where
  "unsigned_literal s =
     (case s of
        [] \<Rightarrow> None
      | c # cs \<Rightarrow> if py_isdigit c then digits_after (digit_value c) cs else None)"

definition literal_char :: "char \<Rightarrow> bool" where
  "literal_char c = (py_isdigit c \<or> c = CHR ''_'')"

text \<open>The sign (\<open>True\<close> for \<open>-\<close>) and what follows it.\<close>

definition split_sign :: "string \<Rightarrow> bool \<times> string" where
  "split_sign s =
     (case s of
        [] \<Rightarrow> (False, [])
      | c # cs \<Rightarrow>
          if c = CHR ''-'' then (True, cs)
          else if c = CHR ''+'' then (False, cs)
          else (False, c # cs))"

datatype int_parse = IntValue int | InvalidLiteral | TooManyDigits nat

definition parse_int :: "nat \<Rightarrow> string \<Rightarrow> int_parse" where
  "parse_int max_str_digits s =
     (case split_sign (int_strip s) of
        (negative, body) \<Rightarrow>
          (case unsigned_literal (takeWhile literal_char body) of
             None \<Rightarrow> InvalidLiteral
           | Some n \<Rightarrow>
               if 0 < max_str_digits \<and>
                  max_str_digits < length (filter py_isdigit (takeWhile literal_char body))
               then TooManyDigits (length (filter py_isdigit (takeWhile literal_char body)))
               else if dropWhile literal_char body \<noteq> [] then InvalidLiteral
               else IntValue (if negative then - int n else int n)))"

text \<open>A natural number in decimal, as an f-string or a message prints it.\<close>

fun decimal :: "nat \<Rightarrow> string" where
  "decimal n =
     (if n < 10 then [char_of (48 + n)] else decimal (n div 10) @ [char_of (48 + n mod 10)])"

definition py_int :: "world \<Rightarrow> string \<Rightarrow> int comp" where
  "py_int w s =
     (case parse_int (int_max_str_digits w) s of
        IntValue n \<Rightarrow> ret n
      | InvalidLiteral \<Rightarrow>
          raise (ValueError (''invalid literal for int() with base 10: '' @ quoted s))
      | TooManyDigits d \<Rightarrow>
          raise (ValueError
            (''Exceeds the limit ('' @ decimal (int_max_str_digits w) @
             '' digits) for integer string conversion: value has '' @ decimal d @
             '' digits; use sys.set_int_max_str_digits() to increase the limit'')))"

section \<open>The launcher: \<open>run_browser_automation.py\<close>\<close>

subsection \<open>\<open>install_browser_use\<close> and \<open>check_installation\<close>\<close>

text \<open>
  \<^verbatim>\<open>
    def install_browser_use(self):
        print("Installing browser-use...")
        try:
            subprocess.run([sys.executable, "-m", "pip", "install", "browser-use",
                            "playwright", "python-dotenv"], check=True)
            subprocess.run([sys.executable, "-m", "playwright", "install", "chromium"],
                           check=True)
            print("Installation complete!")
            return True
        except subprocess.CalledProcessError as e:
            print(f"Installation failed: {e}")
            return False
  \<close>
\<close>

definition launcher_install_browser_use :: "world \<Rightarrow> bool comp" where
  "launcher_install_browser_use w =
     and_then (py_print ''Installing browser-use...'') (\<lambda>_.
     try_except
       (and_then (subprocess_run w [sys_executable w, ''-m'', ''pip'', ''install'',
                    ''browser-use'', ''playwright'', ''python-dotenv'']) (\<lambda>_.
        and_then (subprocess_run w [sys_executable w, ''-m'', ''playwright'', ''install'',
                    ''chromium'']) (\<lambda>_.
        and_then (py_print ''Installation complete!'') (\<lambda>_.
        ret True))))
       is_CalledProcessError
       (\<lambda>e. and_then (py_print (''Installation failed: '' @ exn_str e)) (\<lambda>_. ret False)))"

text \<open>
  \<^verbatim>\<open>
    def check_installation(self):
        print("Checking installation...")
        try:
            import browser_use
            print("Browser-use installed")
        except ImportError:
            print("Browser-use not installed")
            return self.install_browser_use()
        try:
            import playwright
            print("Playwright available")
        except ImportError:
            print("Installing Playwright...")
            subprocess.run([sys.executable, "-m", "pip", "install", "playwright"], check=True)
            subprocess.run([sys.executable, "-m", "playwright", "install", "chromium"],
                           check=True)
        return True
  \<close>
  The first \<open>try\<close> returns from its handler (\<open>Some\<close> of the value) or goes on (\<open>None\<close>).
\<close>

definition check_installation :: "world \<Rightarrow> bool comp" where
  "check_installation w =
     and_then (py_print ''Checking installation...'') (\<lambda>_.
     and_then
       (try_except
          (and_then (import_module w ''browser_use'') (\<lambda>_.
           and_then (py_print ''Browser-use installed'') (\<lambda>_.
           ret None)))
          is_ImportError
          (\<lambda>_. and_then (py_print ''Browser-use not installed'') (\<lambda>_.
                and_then (launcher_install_browser_use w) (\<lambda>ok.
                ret (Some ok)))))
       (\<lambda>returned.
          case returned of
            Some ok \<Rightarrow> ret ok
          | None \<Rightarrow>
              and_then
                (try_except
                   (and_then (import_module w ''playwright'') (\<lambda>_.
                    py_print ''Playwright available''))
                   is_ImportError
                   (\<lambda>_. and_then (py_print ''Installing Playwright...'') (\<lambda>_.
                         and_then (subprocess_run w [sys_executable w, ''-m'', ''pip'',
                                     ''install'', ''playwright'']) (\<lambda>_.
                         subprocess_run w [sys_executable w, ''-m'', ''playwright'',
                                     ''install'', ''chromium'']))))
                (\<lambda>_. ret True)))"

subsection \<open>\<open>get_llm_instance\<close>\<close>

text \<open>
  Each branch of \<open>get_llm_instance\<close> has the same shape, here for Gemini:
  \<^verbatim>\<open>
        if os.getenv("GEMINI_API_KEY"):
            try:
                from langchain_google_genai import ChatGoogleGenerativeAI
                return ChatGoogleGenerativeAI(
                    model="gemini-1.5-flash",
                    google_api_key=os.getenv("GEMINI_API_KEY")
                ), "Gemini (FREE)"
            except ImportError:
                subprocess.run([sys.executable, "-m", "pip", "install",
                                "langchain-google-genai"], check=True)
                from langchain_google_genai import ChatGoogleGenerativeAI
                return ChatGoogleGenerativeAI(
                    model="gemini-1.5-flash",
                    google_api_key=os.getenv("GEMINI_API_KEY")
                ), "Gemini (FREE)"
  \<close>
  \<open>chat_client\<close> is that shape, for the module, the pip package, the object to build and
  the label of the branch.
\<close>

definition new_chat_model :: "world \<Rightarrow> llm \<Rightarrow> llm comp" where
  "new_chat_model w m =
     and_then (emit (NewChatModel m)) (\<lambda>_.
       case chat_model_init w m of None \<Rightarrow> ret m | Some e \<Rightarrow> raise e)"

definition chat_client :: "world \<Rightarrow> string \<Rightarrow> string \<Rightarrow> llm \<Rightarrow> string \<Rightarrow> (llm \<times> string) comp" where
  "chat_client w module package m label =
     try_except
       (and_then (import_module w module) (\<lambda>_.
        and_then (new_chat_model w m) (\<lambda>obj.
        ret (obj, label))))
       is_ImportError
       (\<lambda>_. and_then (subprocess_run w [sys_executable w, ''-m'', ''pip'', ''install'',
                          package]) (\<lambda>_.
             and_then (import_after_pip w module) (\<lambda>_.
             and_then (new_chat_model w m) (\<lambda>obj.
             ret (obj, label)))))"

text \<open>
  \<^verbatim>\<open>
    def get_llm_instance(self):
        load_dotenv(override=True)
        if os.getenv("GEMINI_API_KEY"):      ... ChatGoogleGenerativeAI, "Gemini (FREE)"
        elif os.getenv("GROQ_API_KEY"):      ... ChatGroq, "Groq (FREE)"
        elif os.getenv("OPENAI_API_KEY"):    ... ChatOpenAI, "OpenAI GPT-4"
        elif os.getenv("ANTHROPIC_API_KEY"): ... ChatAnthropic, "Claude 3"
        else:
            raise ValueError("No valid API key found. Please set up an API key first.")
  \<close>
  The function returns the environment as \<open>load_dotenv\<close> has left it, with its
  computation.
\<close>

definition no_key_message :: string where
  "no_key_message = ''No valid API key found. Please set up an API key first.''"

definition get_llm_instance :: "world \<Rightarrow> env \<Rightarrow> env \<times> (llm \<times> string) comp" where
  "get_llm_instance w environ =
     (let env' = load_dotenv_override w environ in
      (env',
       and_then (emit LoadDotenv) (\<lambda>_.
         if truthy (env' ''GEMINI_API_KEY'') then
           chat_client w ''langchain_google_genai'' ''langchain-google-genai''
             (ChatModel ''ChatGoogleGenerativeAI''
                [(''model'', Some ''gemini-1.5-flash''),
                 (''google_api_key'', env' ''GEMINI_API_KEY'')])
             ''Gemini (FREE)''
         else if truthy (env' ''GROQ_API_KEY'') then
           chat_client w ''langchain_groq'' ''langchain-groq''
             (ChatModel ''ChatGroq''
                [(''model'', Some ''mixtral-8x7b-32768''),
                 (''groq_api_key'', env' ''GROQ_API_KEY'')])
             ''Groq (FREE)''
         else if truthy (env' ''OPENAI_API_KEY'') then
           chat_client w ''langchain_openai'' ''langchain-openai''
             (ChatModel ''ChatOpenAI''
                [(''model'', Some ''gpt-4''),
                 (''api_key'', env' ''OPENAI_API_KEY'')])
             ''OpenAI GPT-4''
         else if truthy (env' ''ANTHROPIC_API_KEY'') then
           chat_client w ''langchain_anthropic'' ''langchain-anthropic''
             (ChatModel ''ChatAnthropic''
                [(''model'', Some ''claude-3-sonnet-20240229''),
                 (''api_key'', env' ''ANTHROPIC_API_KEY'')])
             ''Claude 3''
         else raise (ValueError no_key_message))))"

subsection \<open>\<open>run_automation_task\<close>\<close>

text \<open>
  \<^verbatim>\<open>
    async def run_automation_task(self, task, headless=False):
        try:
            from browser_use import Agent
            from browser_use.browser.browser import Browser
            llm, provider = self.get_llm_instance()
            print(f"Using {provider}")
            browser = Browser(
                headless=headless,
                slow_mo=int(os.getenv("BROWSER_SLOW_MO", 1000)),
            )
            agent = Agent(task=task, llm=llm, browser=browser)
            print(f"Running task: {task}")
            result = await agent.arun()
            print("Task completed!")
            print(f"Result: {result}")
            return result
        except Exception as e:
            print(f"Task failed: {e}")
            return None
  \<close>
\<close>

text \<open>\<open>int(os.getenv("BROWSER_SLOW_MO", 1000))\<close>: the default is the integer 1000.\<close>

definition slow_mo_setting :: "world \<Rightarrow> env \<Rightarrow> int comp" where
  "slow_mo_setting w environ =
     (case environ ''BROWSER_SLOW_MO'' of None \<Rightarrow> ret 1000 | Some s \<Rightarrow> py_int w s)"

definition new_browser :: "world \<Rightarrow> (string \<times> pyval) list \<Rightarrow> (string \<times> pyval) list comp" where
  "new_browser w kwargs =
     and_then (emit (NewBrowser kwargs)) (\<lambda>_.
       case browser_init w kwargs of None \<Rightarrow> ret kwargs | Some e \<Rightarrow> raise e)"

definition new_agent :: "world \<Rightarrow> string \<Rightarrow> llm \<Rightarrow> (string \<times> pyval) list \<Rightarrow> unit comp" where
  "new_agent w task m browser =
     and_then (emit (NewAgent task m browser)) (\<lambda>_.
       case agent_init w task m browser of None \<Rightarrow> ret () | Some e \<Rightarrow> raise e)"

definition await_arun :: "world \<Rightarrow> string \<Rightarrow> llm \<Rightarrow> (string \<times> pyval) list \<Rightarrow> string comp" where
  "await_arun w task m browser =
     and_then (emit AwaitArun) (\<lambda>_.
       case agent_arun w task m browser of Inl e \<Rightarrow> raise e | Inr result \<Rightarrow> ret result)"

text \<open>The body of the \<open>try\<close>, from the selected provider on.\<close>

definition run_agent :: "world \<Rightarrow> env \<Rightarrow> string \<Rightarrow> bool \<Rightarrow> llm \<times> string \<Rightarrow> string comp" where
  "run_agent w environ task headless selected =
     (case selected of (m, provider) \<Rightarrow>
        and_then (py_print (''Using '' @ provider)) (\<lambda>_.
        and_then (slow_mo_setting w environ) (\<lambda>slow_mo.
        and_then (new_browser w [(''headless'', PBool headless), (''slow_mo'', PInt slow_mo)])
          (\<lambda>browser.
        and_then (new_agent w task m browser) (\<lambda>_.
        and_then (py_print (''Running task: '' @ task)) (\<lambda>_.
        and_then (await_arun w task m browser) (\<lambda>result.
        and_then (py_print ''Task completed!'') (\<lambda>_.
        and_then (py_print (''Result: '' @ result)) (\<lambda>_.
        ret result)))))))))"

text \<open>The whole \<open>try\<close> block, with the environment it leaves.\<close>

definition task_try_block :: "world \<Rightarrow> env \<Rightarrow> string \<Rightarrow> bool \<Rightarrow> env \<times> string comp" where
  "task_try_block w environ task headless =
     (if \<not> module_found w ''browser_use'' then (environ, raise (ImportError ''browser_use''))
      else if \<not> module_found w ''browser_use.browser.browser''
        then (environ, raise (ImportError ''browser_use.browser.browser''))
      else (case get_llm_instance w environ of
              (env', selection) \<Rightarrow>
                (env', and_then selection (run_agent w env' task headless))))"

text \<open>\<open>run_automation_task\<close> returns the environment, the trace and the result, \<open>None\<close>
  after \<open>except Exception\<close>.\<close>

definition run_automation_task :: "world \<Rightarrow> env \<Rightarrow> string \<Rightarrow> bool \<Rightarrow> env \<times> event list \<times> string option" where
  "run_automation_task w environ task headless =
     (case task_try_block w environ task headless of
        (env', t, Inr result) \<Rightarrow> (env', t, Some result)
      | (env', t, Inl e) \<Rightarrow> (env', t @ [Print (''Task failed: '' @ exn_str e)], None))"

subsection \<open>Providers and the credential set\<close>

text \<open>
  The four providers, the environment variable of each, and what \<open>get_llm_instance\<close>
  returns for each: the client object with the value of the variable as its key, and the
  label. The credential set is the environment that \<open>get_llm_instance\<close> reads, that is
  \<open>os.environ\<close> after \<open>load_dotenv(override=True)\<close>.
\<close>

datatype provider = Gemini | Groq | OpenAI | Anthropic

fun env_var :: "provider \<Rightarrow> string" where
  "env_var Gemini = ''GEMINI_API_KEY''"
| "env_var Groq = ''GROQ_API_KEY''"
| "env_var OpenAI = ''OPENAI_API_KEY''"
| "env_var Anthropic = ''ANTHROPIC_API_KEY''"

fun provider_module :: "provider \<Rightarrow> string" where
  "provider_module Gemini = ''langchain_google_genai''"
| "provider_module Groq = ''langchain_groq''"
| "provider_module OpenAI = ''langchain_openai''"
| "provider_module Anthropic = ''langchain_anthropic''"

fun provider_package :: "provider \<Rightarrow> string" where
  "provider_package Gemini = ''langchain-google-genai''"
| "provider_package Groq = ''langchain-groq''"
| "provider_package OpenAI = ''langchain-openai''"
| "provider_package Anthropic = ''langchain-anthropic''"

fun provider_llm :: "provider \<Rightarrow> string option \<Rightarrow> llm" where
  "provider_llm Gemini key =
     ChatModel ''ChatGoogleGenerativeAI''
       [(''model'', Some ''gemini-1.5-flash''), (''google_api_key'', key)]"
| "provider_llm Groq key =
     ChatModel ''ChatGroq'' [(''model'', Some ''mixtral-8x7b-32768''), (''groq_api_key'', key)]"
| "provider_llm OpenAI key =
     ChatModel ''ChatOpenAI'' [(''model'', Some ''gpt-4''), (''api_key'', key)]"
| "provider_llm Anthropic key =
     ChatModel ''ChatAnthropic''
       [(''model'', Some ''claude-3-sonnet-20240229''), (''api_key'', key)]"

fun provider_label :: "provider \<Rightarrow> string" where
  "provider_label Gemini = ''Gemini (FREE)''"
| "provider_label Groq = ''Groq (FREE)''"
| "provider_label OpenAI = ''OpenAI GPT-4''"
| "provider_label Anthropic = ''Claude 3''"

definition credential_set :: "world \<Rightarrow> env \<Rightarrow> env" where
  "credential_set w environ = load_dotenv_override w environ"

definition configured :: "env \<Rightarrow> provider \<Rightarrow> bool" where
  "configured cs p = truthy (cs (env_var p))"

text \<open>The priority order as the specification words it, Gemini > Groq > OpenAI >
  Anthropic, and the provider it picks: the first in the order that is configured.\<close>

definition priority_order :: "provider list" where
  "priority_order = [Gemini, Groq, OpenAI, Anthropic]"

definition highest_priority :: "env \<Rightarrow> provider option" where
  "highest_priority cs = find (configured cs) priority_order"

definition configured_providers :: "env \<Rightarrow> provider list" where
  "configured_providers cs = filter (configured cs) priority_order"

text \<open>
  The client library of a provider is ready when the constructor of the client accepts
  the arguments and the module can be imported, at once or after \<open>pip install\<close> of the
  package has ended with exit status 0.
\<close>

definition client_ready :: "world \<Rightarrow> provider \<Rightarrow> string option \<Rightarrow> bool" where
  "client_ready w p key =
     (chat_model_init w (provider_llm p key) = None \<and>
      (module_found w (provider_module p) \<or>
       (process_exit w [sys_executable w, ''-m'', ''pip'', ''install'', provider_package p] = Exit0 \<and>
        module_found_after_pip w (provider_module p))))"

text \<open>The result of \<open>get_llm_instance\<close>, and the trace and the result of
  \<open>run_automation_task\<close>.\<close>

definition selection_result :: "world \<Rightarrow> env \<Rightarrow> exn + llm \<times> string" where
  "selection_result w environ = snd (snd (get_llm_instance w environ))"

definition task_trace :: "world \<Rightarrow> env \<Rightarrow> string \<Rightarrow> bool \<Rightarrow> event list" where
  "task_trace w environ task headless = fst (snd (run_automation_task w environ task headless))"

definition task_result :: "world \<Rightarrow> env \<Rightarrow> string \<Rightarrow> bool \<Rightarrow> string option" where
  "task_result w environ task headless = snd (snd (run_automation_task w environ task headless))"

text \<open>Both imports at the head of \<open>run_automation_task\<close> succeed.\<close>

definition modules_found :: "world \<Rightarrow> bool" where
  "modules_found w = (module_found w ''browser_use'' \<and> module_found w ''browser_use.browser.browser'')"

fun is_NewBrowser :: "event \<Rightarrow> bool" where
  "is_NewBrowser (NewBrowser kwargs) = True"
| "is_NewBrowser ev = False"

fun is_NewAgent :: "event \<Rightarrow> bool" where
  "is_NewAgent (NewAgent task m browser) = True"
| "is_NewAgent ev = False"

text \<open>The placeholder that \<open>setup_env_file\<close> and \<open>create_env_file\<close> of the setup scripts
  write as the value of \<open>GEMINI_API_KEY\<close>.\<close>

definition placeholder_key :: string where
  "placeholder_key = ''your_gemini_api_key_here''"

section \<open>The desktop setup: \<open>browser_use_setup.py\<close>\<close>

text \<open>Printing and writing a file are taken to succeed. Of a file written, the trace keeps
  the path; the text of the generated scripts is a constant of the source.\<close>

fun print_all :: "string list \<Rightarrow> unit comp" where
  "print_all [] = ret ()"
| "print_all (s # rest) = and_then (py_print s) (\<lambda>_. print_all rest)"

definition write_file :: "string \<Rightarrow> unit comp" where
  "write_file path = emit (WriteFile path)"

text \<open>\<open>sys.version.split()[0]\<close>: the first word of the text, \<open>IndexError\<close> when there is
  none.\<close>

definition first_word :: "string \<Rightarrow> string comp" where
  "first_word s =
     (case dropWhile py_isspace s of
        [] \<Rightarrow> raise (IndexError ''list index out of range'')
      | c # cs \<Rightarrow> ret (takeWhile (\<lambda>c. \<not> py_isspace c) (c # cs)))"

text \<open>\<open>sys.version_info < (3, 11)\<close> compares tuples in lexicographic order; the model keeps
  the major and the minor number.\<close>

definition version_less :: "nat \<times> nat \<Rightarrow> nat \<times> nat \<Rightarrow> bool" where
  "version_less v bound = (fst v < fst bound \<or> (fst v = fst bound \<and> snd v < snd bound))"

text \<open>
  \<^verbatim>\<open>
    def check_python_version(self):
        print("Checking Python version...")
        if self.python_version < (3, 11):
            print(f"Python 3.11+ required. Current version: {sys.version}")
            print("Please upgrade Python to 3.11 or higher")
            return False
        print(f"Python {sys.version.split()[0]} - Compatible!")
        return True
  \<close>
\<close>

definition check_python_version :: "world \<Rightarrow> bool comp" where
  "check_python_version w =
     and_then (py_print ''Checking Python version...'') (\<lambda>_.
       if version_less (version_info w) (3, 11) then
         and_then (py_print (''Python 3.11+ required. Current version: '' @ sys_version w)) (\<lambda>_.
         and_then (py_print ''Please upgrade Python to 3.11 or higher'') (\<lambda>_.
         ret False))
       else
         and_then (first_word (sys_version w)) (\<lambda>v.
         and_then (py_print (''Python '' @ v @ '' - Compatible!'')) (\<lambda>_.
         ret True)))"

text \<open>
  \<^verbatim>\<open>
    def install_uv(self):
        print("\nInstalling UV package manager...")
        try:
            subprocess.run(["uv", "--version"], check=True, capture_output=True)
            print("UV already installed!")
            return True
        except (subprocess.CalledProcessError, FileNotFoundError):
            pass
        try:
            if self.system == "windows":
                subprocess.run([sys.executable, "-m", "pip", "install", "uv"], check=True)
            else:
                subprocess.run(["curl", "-LsSf", "https://astral.sh/uv/install.sh"],
                               check=True, shell=True)
            print("UV installed successfully!")
            return True
        except subprocess.CalledProcessError as e:
            print(f"Failed to install UV: {e}")
            print("Please install UV manually from: https://github.com/astral-sh/uv")
            return False
  \<close>
  The first \<open>try\<close> returns (\<open>Some\<close>) or passes on (\<open>None\<close>).
\<close>

definition install_uv :: "world \<Rightarrow> bool comp" where
  "install_uv w =
     and_then (py_print ''\<newline>Installing UV package manager...'') (\<lambda>_.
     and_then
       (try_except
          (and_then (subprocess_run w [''uv'', ''--version'']) (\<lambda>_.
           and_then (py_print ''UV already installed!'') (\<lambda>_.
           ret (Some True))))
          (\<lambda>e. is_CalledProcessError e \<or> is_FileNotFoundError e)
          (\<lambda>_. ret None))
       (\<lambda>returned.
          case returned of
            Some ok \<Rightarrow> ret ok
          | None \<Rightarrow>
              try_except
                (and_then
                   (if platform_system w = ''windows''
                    then subprocess_run w [sys_executable w, ''-m'', ''pip'', ''install'', ''uv'']
                    else subprocess_run_shell w
                           [''curl'', ''-LsSf'', ''https://astral.sh/uv/install.sh''])
                   (\<lambda>_.
                 and_then (py_print ''UV installed successfully!'') (\<lambda>_.
                 ret True)))
                is_CalledProcessError
                (\<lambda>e. and_then (py_print (''Failed to install UV: '' @ exn_str e)) (\<lambda>_.
                      and_then (py_print
                        ''Please install UV manually from: https://github.com/astral-sh/uv'')
                        (\<lambda>_.
                      ret False)))))"

text \<open>
  \<^verbatim>\<open>
    def install_browser_use(self):
        print("\nInstalling browser-use...")
        try:
            subprocess.run(["uv", "pip", "install", "browser-use"], check=True)
            print("Browser-use installed successfully!")
            return True
        except subprocess.CalledProcessError:
            try:
                subprocess.run([sys.executable, "-m", "pip", "install", "browser-use"],
                               check=True)
                print("Browser-use installed successfully (via pip)!")
                return True
            except subprocess.CalledProcessError as e:
                print(f"Failed to install browser-use: {e}")
                return False
  \<close>
\<close>

definition setup_install_browser_use :: "world \<Rightarrow> bool comp" where
  "setup_install_browser_use w =
     and_then (py_print ''\<newline>Installing browser-use...'') (\<lambda>_.
     try_except
       (and_then (subprocess_run w [''uv'', ''pip'', ''install'', ''browser-use'']) (\<lambda>_.
        and_then (py_print ''Browser-use installed successfully!'') (\<lambda>_.
        ret True)))
       is_CalledProcessError
       (\<lambda>_. try_except
               (and_then (subprocess_run w [sys_executable w, ''-m'', ''pip'', ''install'',
                            ''browser-use'']) (\<lambda>_.
                and_then (py_print ''Browser-use installed successfully (via pip)!'') (\<lambda>_.
                ret True)))
               is_CalledProcessError
               (\<lambda>e. and_then (py_print (''Failed to install browser-use: '' @ exn_str e)) (\<lambda>_.
                     ret False))))"

text \<open>
  \<^verbatim>\<open>
    def install_chromium(self):
        print("\nInstalling Chromium browser...")
        try:
            subprocess.run(["uvx", "playwright", "install", "chromium", "--with-deps",
                            "--no-shell"], check=True)
            print("Chromium installed successfully!")
            return True
        except subprocess.CalledProcessError:
            try:
                subprocess.run([sys.executable, "-m", "playwright", "install", "chromium"],
                               check=True)
                print("Chromium installed successfully (fallback method)!")
                return True
            except subprocess.CalledProcessError as e:
                print(f"Failed to install Chromium: {e}")
                print("Please install manually: python -m playwright install chromium")
                return False
  \<close>
\<close>

definition install_chromium :: "world \<Rightarrow> bool comp" where
  "install_chromium w =
     and_then (py_print ''\<newline>Installing Chromium browser...'') (\<lambda>_.
     try_except
       (and_then (subprocess_run w [''uvx'', ''playwright'', ''install'', ''chromium'',
                    ''--with-deps'', ''--no-shell'']) (\<lambda>_.
        and_then (py_print ''Chromium installed successfully!'') (\<lambda>_.
        ret True)))
       is_CalledProcessError
       (\<lambda>_. try_except
               (and_then (subprocess_run w [sys_executable w, ''-m'', ''playwright'',
                            ''install'', ''chromium'']) (\<lambda>_.
                and_then (py_print ''Chromium installed successfully (fallback method)!'') (\<lambda>_.
                ret True)))
               is_CalledProcessError
               (\<lambda>e. and_then (py_print (''Failed to install Chromium: '' @ exn_str e)) (\<lambda>_.
                     and_then (py_print
                       ''Please install manually: python -m playwright install chromium'') (\<lambda>_.
                     ret False)))))"

text \<open>The lines of \<open>env_content\<close> in \<open>setup_env_file\<close>, the text written to a new \<open>.env\<close>.\<close>

definition setup_env_content :: "string list" where
  "setup_env_content =
     [''# Browser-Use Environment Configuration\<newline>'',
      ''# Get your FREE Gemini API key from: https://makersuite.google.com/app/apikey\<newline>'',
      ''\<newline>'',
      ''# REQUIRED: Choose ONE of the following LLM providers\<newline>'',
      ''GEMINI_API_KEY=your_gemini_api_key_here\<newline>'',
      ''\<newline>'',
      ''# OPTIONAL: Alternative LLM providers (uncomment and add key if preferred)\<newline>'',
      ''# OPENAI_API_KEY=your_openai_api_key_here\<newline>'',
      ''# ANTHROPIC_API_KEY=your_anthropic_api_key_here\<newline>'',
      ''# GROQ_API_KEY=your_groq_api_key_here\<newline>'',
      ''\<newline>'',
      ''# OPTIONAL: Browser settings\<newline>'',
      ''# HEADLESS=false  # Set to true for headless mode\<newline>'',
      ''# BROWSER_SLOW_MO=1000  # Milliseconds to slow down browser actions\<newline>'',
      ''\<newline>'',
      ''# OPTIONAL: Logging\<newline>'',
      ''# LOG_LEVEL=INFO\<newline>'']"

text \<open>
  \<^verbatim>\<open>
    def setup_env_file(self):
        print("\nSetting up environment variables...")
        if self.env_file.exists():
            print(".env file already exists!")
            return True
        print("Creating .env file for API keys...")
        env_content = ...
        with open(self.env_file, 'w') as f:
            f.write(env_content)
        print(f"Created .env file at: {self.env_file}")
        print("\nIMPORTANT: You need to add your API key to the .env file!")
        print("For FREE unlimited usage, get a Gemini API key from:")
        print("https://makersuite.google.com/app/apikey")
        return True
  \<close>
\<close>

definition setup_env_file :: "world \<Rightarrow> bool comp" where
  "setup_env_file w =
     and_then (py_print ''\<newline>Setting up environment variables...'') (\<lambda>_.
       if env_file_exists w then
         and_then (py_print ''.env file already exists!'') (\<lambda>_. ret True)
       else
         and_then (py_print ''Creating .env file for API keys...'') (\<lambda>_.
         and_then (write_file (setup_path w ''.env'')) (\<lambda>_.
         and_then (print_all
           [''Created .env file at: '' @ setup_path w ''.env'',
            ''\<newline>IMPORTANT: You need to add your API key to the .env file!'',
            ''For FREE unlimited usage, get a Gemini API key from:'',
            ''https://makersuite.google.com/app/apikey'']) (\<lambda>_.
         ret True))))"

text \<open>
  \<^verbatim>\<open>
    def create_demo_script(self):
        print("\nCreating demo script...")
        demo_content = ...
        demo_file = self.setup_dir / "demo_browser_use.py"
        with open(demo_file, 'w') as f:
            f.write(demo_content)
        print(f"Demo script created: {demo_file}")
        return True
  \<close>
  and \<open>create_advanced_script\<close> alike, for \<open>advanced_browser_use.py\<close>.
\<close>

definition create_demo_script :: "world \<Rightarrow> bool comp" where
  "create_demo_script w =
     and_then (py_print ''\<newline>Creating demo script...'') (\<lambda>_.
     and_then (write_file (setup_path w ''demo_browser_use.py'')) (\<lambda>_.
     and_then (py_print (''Demo script created: '' @ setup_path w ''demo_browser_use.py'')) (\<lambda>_.
     ret True)))"

definition create_advanced_script :: "world \<Rightarrow> bool comp" where
  "create_advanced_script w =
     and_then (py_print ''\<newline>Creating advanced usage script...'') (\<lambda>_.
     and_then (write_file (setup_path w ''advanced_browser_use.py'')) (\<lambda>_.
     and_then (py_print
       (''Advanced script created: '' @ setup_path w ''advanced_browser_use.py'')) (\<lambda>_.
     ret True)))"

text \<open>
  The loop of both setup drivers:
  \<^verbatim>\<open>
        failed_steps = []
        for step_name, step_func in steps:
            if not step_func():
                failed_steps.append(step_name)
  \<close>
  A step is its name and the computation that calling \<open>step_func\<close> is; the loop returns
  \<open>failed_steps\<close>. An exception raised by a step leaves the loop and the driver.
\<close>

fun run_steps :: "(string \<times> bool comp) list \<Rightarrow> string list \<Rightarrow> string list comp" where
  "run_steps [] failed_steps = ret failed_steps"
| "run_steps ((step_name, step_func) # rest) failed_steps =
     and_then step_func (\<lambda>ok.
       run_steps rest (if \<not> ok then failed_steps @ [step_name] else failed_steps))"

definition full_setup_steps :: "world \<Rightarrow> (string \<times> bool comp) list" where
  "full_setup_steps w =
     [(''Python Version Check'', check_python_version w),
      (''UV Package Manager'', install_uv w),
      (''Browser-Use Installation'', setup_install_browser_use w),
      (''Chromium Installation'', install_chromium w),
      (''Environment Setup'', setup_env_file w),
      (''Demo Script Creation'', create_demo_script w),
      (''Advanced Script Creation'', create_advanced_script w)]"

text \<open>
  \<^verbatim>\<open>
    def run_full_setup(self):
        print("Browser-Use Complete Setup")
        print("=" * 50)
        steps = [...]
        failed_steps = []
        for step_name, step_func in steps: ...
        print("\n" + "=" * 50)
        if not failed_steps:
            print("SETUP COMPLETE! Browser-Use is ready for unlimited automation!")
            ...
        else:
            print(f"Setup completed with {len(failed_steps)} issues:")
            for step in failed_steps:
                print(f"   - {step}")
            print("\nPlease resolve these issues and try again.")
        print("\nResources:")
        ...
  \<close>
\<close>

definition full_setup_report :: "string list \<Rightarrow> unit comp" where
  "full_setup_report failed_steps =
     (if failed_steps = [] then
        print_all
          [''SETUP COMPLETE! Browser-Use is ready for unlimited automation!'',
           ''\<newline>Next Steps:'',
           ''1. Get your FREE Gemini API key: https://makersuite.google.com/app/apikey'',
           ''2. Add it to the .env file (replace '' @ quoted ''your_gemini_api_key_here'' @ '')'',
           ''3. Run: python demo_browser_use.py'',
           ''4. For advanced features: python advanced_browser_use.py'',
           ''\<newline>Tips:'',
           ''- Gemini API is completely FREE with no usage limits'',
           ''- Use headless=True for faster, background automation'',
           ''- Check the .env file for more configuration options'']
      else
        and_then (py_print
          (''Setup completed with '' @ decimal (length failed_steps) @ '' issues:'')) (\<lambda>_.
        and_then (print_all (map (\<lambda>step. ''   - '' @ step) failed_steps)) (\<lambda>_.
        py_print ''\<newline>Please resolve these issues and try again.'')))"

definition run_full_setup :: "world \<Rightarrow> unit comp" where
  "run_full_setup w =
     and_then (py_print ''Browser-Use Complete Setup'') (\<lambda>_.
     and_then (py_print (replicate 50 (CHR ''=''))) (\<lambda>_.
     and_then (run_steps (full_setup_steps w) []) (\<lambda>failed_steps.
     and_then (py_print (''\<newline>'' @ replicate 50 (CHR ''=''))) (\<lambda>_.
     and_then (full_setup_report failed_steps) (\<lambda>_.
     print_all
       [''\<newline>Resources:'',
        ''- Documentation: https://browser-use.com'',
        ''- GitHub: https://github.com/browser-use/browser-use'',
        ''- Discord: https://discord.gg/browser-use''])))))"

section \<open>The Termux setup: \<open>termux_browser_use_setup.py\<close>\<close>

text \<open>
  \<^verbatim>\<open>
    def check_termux_environment(self):
        print("Checking Termux environment...")
        if not os.path.exists("/data/data/com.termux"):
            print("This script is designed for Termux on Android")
            print("For PC setup, use browser_use_setup.py instead")
            return False
        print("Termux environment detected!")
        return True
  \<close>
\<close>

definition check_termux_environment :: "world \<Rightarrow> bool comp" where
  "check_termux_environment w =
     and_then (py_print ''Checking Termux environment...'') (\<lambda>_.
       if \<not> termux_dir_exists w then
         and_then (py_print ''This script is designed for Termux on Android'') (\<lambda>_.
         and_then (py_print ''For PC setup, use browser_use_setup.py instead'') (\<lambda>_.
         ret False))
       else and_then (py_print ''Termux environment detected!'') (\<lambda>_. ret True))"

text \<open>
  \<^verbatim>\<open>
    def update_packages(self):
        print("\nUpdating Termux packages...")
        try:
            subprocess.run(["pkg", "update", "-y"], check=True)
            subprocess.run(["pkg", "upgrade", "-y"], check=True)
            print("Packages updated!")
            return True
        except subprocess.CalledProcessError as e:
            print(f"Failed to update packages: {e}")
            return False
  \<close>
\<close>

definition update_packages :: "world \<Rightarrow> bool comp" where
  "update_packages w =
     and_then (py_print ''\<newline>Updating Termux packages...'') (\<lambda>_.
     try_except
       (and_then (subprocess_run w [''pkg'', ''update'', ''-y'']) (\<lambda>_.
        and_then (subprocess_run w [''pkg'', ''upgrade'', ''-y'']) (\<lambda>_.
        and_then (py_print ''Packages updated!'') (\<lambda>_.
        ret True))))
       is_CalledProcessError
       (\<lambda>e. and_then (py_print (''Failed to update packages: '' @ exn_str e)) (\<lambda>_. ret False)))"

text \<open>
  \<^verbatim>\<open>
    def install_dependencies(self):
        print("\nInstalling dependencies...")
        packages = ["python", "python-pip", "git", "nodejs", "chromium", "x11-repo",
                    "tur-repo"]
        for package in packages:
            try:
                print(f"Installing {package}...")
                subprocess.run(["pkg", "install", package, "-y"], check=True)
            except subprocess.CalledProcessError:
                print(f"Failed to install {package}, continuing...")
        print("Dependencies installation completed!")
        return True
  \<close>
\<close>

fun install_each_pkg :: "world \<Rightarrow> string list \<Rightarrow> unit comp" where
  "install_each_pkg w [] = ret ()"
| "install_each_pkg w (package # rest) =
     and_then
       (try_except
          (and_then (py_print (''Installing '' @ package @ ''...'')) (\<lambda>_.
           subprocess_run w [''pkg'', ''install'', package, ''-y'']))
          is_CalledProcessError
          (\<lambda>_. py_print (''Failed to install '' @ package @ '', continuing...'')))
       (\<lambda>_. install_each_pkg w rest)"

definition install_dependencies :: "world \<Rightarrow> bool comp" where
  "install_dependencies w =
     and_then (py_print ''\<newline>Installing dependencies...'') (\<lambda>_.
     and_then (install_each_pkg w
       [''python'', ''python-pip'', ''git'', ''nodejs'', ''chromium'', ''x11-repo'', ''tur-repo''])
       (\<lambda>_.
     and_then (py_print ''Dependencies installation completed!'') (\<lambda>_.
     ret True)))"

text \<open>
  \<^verbatim>\<open>
    def install_python_packages(self):
        print("\nInstalling Python packages...")
        try:
            subprocess.run([sys.executable, "-m", "pip", "install", "--upgrade", "pip"],
                           check=True)
            packages = ["browser-use", "python-dotenv", "langchain-google-genai",
                        "playwright", "asyncio"]
            for package in packages:
                print(f"Installing {package}...")
                subprocess.run([sys.executable, "-m", "pip", "install", package], check=True)
            print("Python packages installed!")
            return True
        except subprocess.CalledProcessError as e:
            print(f"Failed to install Python packages: {e}")
            return False
  \<close>
\<close>

fun pip_install_each :: "world \<Rightarrow> string list \<Rightarrow> unit comp" where
  "pip_install_each w [] = ret ()"
| "pip_install_each w (package # rest) =
     and_then (py_print (''Installing '' @ package @ ''...'')) (\<lambda>_.
     and_then (subprocess_run w [sys_executable w, ''-m'', ''pip'', ''install'', package]) (\<lambda>_.
     pip_install_each w rest))"

definition install_python_packages :: "world \<Rightarrow> bool comp" where
  "install_python_packages w =
     and_then (py_print ''\<newline>Installing Python packages...'') (\<lambda>_.
     try_except
       (and_then (subprocess_run w [sys_executable w, ''-m'', ''pip'', ''install'',
                    ''--upgrade'', ''pip'']) (\<lambda>_.
        and_then (pip_install_each w
          [''browser-use'', ''python-dotenv'', ''langchain-google-genai'', ''playwright'',
           ''asyncio'']) (\<lambda>_.
        and_then (py_print ''Python packages installed!'') (\<lambda>_.
        ret True))))
       is_CalledProcessError
       (\<lambda>e. and_then (py_print (''Failed to install Python packages: '' @ exn_str e)) (\<lambda>_.
             ret False)))"

text \<open>
  \<^verbatim>\<open>
    def setup_playwright(self):
        print("\nSetting up Playwright...")
        try:
            subprocess.run([sys.executable, "-m", "playwright", "install", "chromium"],
                           check=True)
            print("Playwright setup complete!")
            return True
        except subprocess.CalledProcessError as e:
            print(f"Playwright setup failed: {e}")
            print("Trying alternative Chromium setup...")
            return True  # Continue even if this fails
  \<close>
\<close>

definition setup_playwright :: "world \<Rightarrow> bool comp" where
  "setup_playwright w =
     and_then (py_print ''\<newline>Setting up Playwright...'') (\<lambda>_.
     try_except
       (and_then (subprocess_run w [sys_executable w, ''-m'', ''playwright'', ''install'',
                    ''chromium'']) (\<lambda>_.
        and_then (py_print ''Playwright setup complete!'') (\<lambda>_.
        ret True)))
       is_CalledProcessError
       (\<lambda>e. and_then (py_print (''Playwright setup failed: '' @ exn_str e)) (\<lambda>_.
             and_then (py_print ''Trying alternative Chromium setup...'') (\<lambda>_.
             ret True))))"

text \<open>
  \<^verbatim>\<open>
    def setup_display(self):
        print("\nSetting up display...")
        try:
            subprocess.run(["pkg", "install", "tigervnc", "-y"], check=True)
            vnc_script = self.setup_dir / "start_vnc.sh"
            vnc_content = ...
            with open(vnc_script, 'w') as f:
                f.write(vnc_content)
            os.chmod(vnc_script, 0o755)
            print("VNC setup complete!")
            print("Run './start_vnc.sh' to start GUI support")
            return True
        except subprocess.CalledProcessError:
            print("VNC setup failed, browser will run in headless mode")
            return True
  \<close>
\<close>

definition setup_display :: "world \<Rightarrow> bool comp" where
  "setup_display w =
     and_then (py_print ''\<newline>Setting up display...'') (\<lambda>_.
     try_except
       (and_then (subprocess_run w [''pkg'', ''install'', ''tigervnc'', ''-y'']) (\<lambda>_.
        and_then (write_file (setup_path w ''start_vnc.sh'')) (\<lambda>_.
        and_then (emit (Chmod (setup_path w ''start_vnc.sh''))) (\<lambda>_.
        and_then (py_print ''VNC setup complete!'') (\<lambda>_.
        and_then (py_print (''Run '' @ quoted ''./start_vnc.sh'' @ '' to start GUI support'')) (\<lambda>_.
        ret True))))))
       is_CalledProcessError
       (\<lambda>_. and_then (py_print ''VNC setup failed, browser will run in headless mode'') (\<lambda>_.
             ret True)))"

text \<open>The lines of \<open>env_content\<close> in \<open>create_env_file\<close>.\<close>

definition termux_env_content :: "string list" where
  "termux_env_content =
     [''# Browser-Use Configuration for Termux\<newline>'',
      ''# Get FREE Gemini API key: https://makersuite.google.com/app/apikey\<newline>'',
      ''\<newline>'',
      ''# REQUIRED: Add your API key here\<newline>'',
      ''GEMINI_API_KEY=your_gemini_api_key_here\<newline>'',
      ''\<newline>'',
      ''# Termux-specific settings\<newline>'',
      ''HEADLESS=true\<newline>'',
      ''BROWSER_EXECUTABLE=/data/data/com.termux/files/usr/bin/chromium\<newline>'',
      ''DISPLAY=:1\<newline>'',
      ''\<newline>'',
      ''# Optional: Other LLM providers\<newline>'',
      ''# OPENAI_API_KEY=your_openai_key_here\<newline>'',
      ''# GROQ_API_KEY=your_groq_key_here\<newline>'',
      ''\<newline>'',
      ''# Performance settings for mobile\<newline>'',
      ''BROWSER_TIMEOUT=60000\<newline>'',
      ''BROWSER_SLOW_MO=2000\<newline>'']"

text \<open>
  \<^verbatim>\<open>
    def create_env_file(self):
        print("\nCreating environment file...")
        env_content = ...
        with open(self.env_file, 'w') as f:
            f.write(env_content)
        print(f"Environment file created: {self.env_file}")
        return True
  \<close>
  and \<open>create_termux_demo\<close>, \<open>create_setup_instructions\<close> alike, for
  \<open>termux_browser_demo.py\<close> and \<open>TERMUX_SETUP.md\<close>.
\<close>

definition create_env_file :: "world \<Rightarrow> bool comp" where
  "create_env_file w =
     and_then (py_print ''\<newline>Creating environment file...'') (\<lambda>_.
     and_then (write_file (setup_path w ''.env'')) (\<lambda>_.
     and_then (py_print (''Environment file created: '' @ setup_path w ''.env'')) (\<lambda>_.
     ret True)))"

definition create_termux_demo :: "world \<Rightarrow> bool comp" where
  "create_termux_demo w =
     and_then (py_print ''\<newline>Creating Termux demo script...'') (\<lambda>_.
     and_then (write_file (setup_path w ''termux_browser_demo.py'')) (\<lambda>_.
     and_then (py_print (''Termux demo created: '' @ setup_path w ''termux_browser_demo.py''))
       (\<lambda>_.
     ret True)))"

definition create_setup_instructions :: "world \<Rightarrow> bool comp" where
  "create_setup_instructions w =
     and_then (py_print ''\<newline>Creating setup instructions...'') (\<lambda>_.
     and_then (write_file (setup_path w ''TERMUX_SETUP.md'')) (\<lambda>_.
     and_then (py_print (''Instructions created: '' @ setup_path w ''TERMUX_SETUP.md'')) (\<lambda>_.
     ret True)))"

text \<open>
  \<^verbatim>\<open>
    def run_complete_setup(self):
        print("Browser-Use Setup for Termux")
        print("=" * 50)
        if not self.check_termux_environment():
            return
        steps = [...]
        failed_steps = []
        for step_name, step_func in steps:
            print(f"\\n{step_name}...")
            if not step_func():
                failed_steps.append(step_name)
        print("\\n" + "=" * 50)
        if not failed_steps:
            print("TERMUX SETUP COMPLETE!")
            ...
        else:
            print(f"Setup completed with {len(failed_steps)} issues:")
            for step in failed_steps:
                print(f"   - {step}")
        print("\\nResources:")
        ...
  \<close>
  In this function the source writes \<open>\\n\<close>, which prints a backslash and the letter n.
  Each step of the list is preceded by the print of its name.
\<close>

definition backslash_n :: string where
  "backslash_n = [CHR 0x5C, CHR ''n'']"

definition announced :: "string \<times> bool comp \<Rightarrow> string \<times> bool comp" where
  "announced step =
     (case step of (step_name, step_func) \<Rightarrow>
        (step_name,
         and_then (py_print (backslash_n @ step_name @ ''...'')) (\<lambda>_. step_func)))"

definition complete_setup_steps :: "world \<Rightarrow> (string \<times> bool comp) list" where
  "complete_setup_steps w =
     [(''Package Update'', update_packages w),
      (''Dependencies Installation'', install_dependencies w),
      (''Python Packages'', install_python_packages w),
      (''Playwright Setup'', setup_playwright w),
      (''Display Setup'', setup_display w),
      (''Environment Configuration'', create_env_file w),
      (''Demo Script Creation'', create_termux_demo w),
      (''Instructions Creation'', create_setup_instructions w)]"

definition complete_setup_report :: "string list \<Rightarrow> unit comp" where
  "complete_setup_report failed_steps =
     (if failed_steps = [] then
        print_all
          [''TERMUX SETUP COMPLETE!'',
           backslash_n @ ''Next Steps:'',
           ''1. Get FREE Gemini API key: https://makersuite.google.com/app/apikey'',
           ''2. Edit .env file: nano .env'',
           ''3. Add your API key to replace '' @ quoted ''your_gemini_api_key_here'',
           ''4. Run: python termux_browser_demo.py'',
           backslash_n @ ''Termux Tips:'',
           ''- Browser runs in headless mode for performance'',
           ''- Use '' @ quoted ''termux-wake-lock'' @ '' to prevent sleep during automation'',
           ''- Check TERMUX_SETUP.md for detailed instructions'']
      else
        and_then (py_print
          (''Setup completed with '' @ decimal (length failed_steps) @ '' issues:'')) (\<lambda>_.
        print_all (map (\<lambda>step. ''   - '' @ step) failed_steps)))"

definition run_complete_setup :: "world \<Rightarrow> unit comp" where
  "run_complete_setup w =
     and_then (py_print ''Browser-Use Setup for Termux'') (\<lambda>_.
     and_then (py_print (replicate 50 (CHR ''=''))) (\<lambda>_.
     and_then (check_termux_environment w) (\<lambda>in_termux.
       if \<not> in_termux then ret ()
       else
         and_then (run_steps (map announced (complete_setup_steps w)) []) (\<lambda>failed_steps.
         and_then (py_print (backslash_n @ replicate 50 (CHR ''=''))) (\<lambda>_.
         and_then (complete_setup_report failed_steps) (\<lambda>_.
         print_all
           [backslash_n @ ''Resources:'',
            ''- Termux Wiki: https://wiki.termux.com/'',
            ''- Browser-Use Docs: https://browser-use.com'']))))))"

section \<open>Concrete worlds and environments\<close>

text \<open>A machine on which every module is installed, every process ends with exit status
  0, no \<open>.env\<close> file changes the environment, and the browser-automation library does
  what it is asked; the agent returns \<open>done\<close>.\<close>

definition ready_world :: world where
  "ready_world =
     \<lparr> sys_executable = ''/usr/bin/python3'',
       sys_version = ''3.11.4 (main, Jun  7 2023)'',
       version_info = (3, 11),
       int_max_str_digits = 4300,
       platform_system = ''linux'',
       module_found = (\<lambda>name. True),
       module_found_after_pip = (\<lambda>name. True),
       process_exit = (\<lambda>argv. Exit0),
       load_dotenv_override = (\<lambda>environ. environ),
       chat_model_init = (\<lambda>m. None),
       browser_init = (\<lambda>kwargs. None),
       agent_init = (\<lambda>task m browser. None),
       agent_arun = (\<lambda>task m browser. Inr ''done''),
       termux_dir_exists = False,
       env_file_exists = False,
       setup_path = (\<lambda>name. ''/home/user/'' @ name) \<rparr>"

text \<open>The same machine with browser-use installed, but without the LangChain clients and
  without a network: \<open>pip install\<close> ends with a non-zero exit status.\<close>

definition offline_world :: world where
  "offline_world =
     ready_world
       \<lparr> module_found := (\<lambda>name. name \<in> set [''browser_use'', ''browser_use.browser.browser'']),
         module_found_after_pip := (\<lambda>name. False),
         process_exit := (\<lambda>argv. ExitNonzero) \<rparr>"

text \<open>The machine on which the agent's run fails.\<close>

definition failing_run_world :: world where
  "failing_run_world =
     ready_world \<lparr> agent_arun := (\<lambda>task m browser. Inl (LibraryError ''page crashed'')) \<rparr>"

definition two_keys_env :: env where
  "two_keys_env = map_of [(''GEMINI_API_KEY'', ''AIza-demo''), (''GROQ_API_KEY'', ''gsk-demo'')]"

definition openai_only_env :: env where
  "openai_only_env = map_of [(''GEMINI_API_KEY'', ''''), (''OPENAI_API_KEY'', ''sk-demo'')]"

text \<open>The environment of the file that \<open>setup_api_keys\<close> creates.\<close>

definition no_keys_env :: env where
  "no_keys_env =
     map_of [(''GEMINI_API_KEY'', ''''), (''OPENAI_API_KEY'', ''''), (''ANTHROPIC_API_KEY'', ''''),
             (''GROQ_API_KEY'', ''''), (''HEADLESS'', ''false''), (''BROWSER_SLOW_MO'', ''1000'')]"

text \<open>The environment of the file that \<open>setup_env_file\<close> creates, left as it is.\<close>

definition placeholder_env :: env where
  "placeholder_env = map_of [(''GEMINI_API_KEY'', placeholder_key)]"

text \<open>The settings of the file that \<open>create_env_file\<close> creates for Termux, with a key.\<close>

definition termux_env :: env where
  "termux_env =
     map_of [(''GEMINI_API_KEY'', ''AIza-demo''), (''HEADLESS'', ''true''),
             (''BROWSER_TIMEOUT'', ''60000''), (''BROWSER_SLOW_MO'', ''2000'')]"

definition bad_slow_mo_env :: env where
  "bad_slow_mo_env = map_of [(''GEMINI_API_KEY'', ''AIza-demo''), (''BROWSER_SLOW_MO'', ''fast'')]"

text \<open>A Linux machine on which \<open>uv\<close> and \<open>uvx\<close> are not installed: starting them finds no
  program. The installer line of \<open>install_uv\<close> runs \<open>/bin/sh -c curl\<close> with the other
  words as arguments of the shell, so \<open>curl\<close> is started without a URL and ends with a
  non-zero exit status. Every other process ends with exit status 0.\<close>

definition no_uv_world :: world where
  "no_uv_world =
     ready_world
       \<lparr> process_exit := (\<lambda>argv.
           if take 1 argv = [''uv''] \<or> take 1 argv = [''uvx''] then NoSuchProgram
           else if take 3 argv = [''/bin/sh'', ''-c'', ''curl''] then ExitNonzero
           else Exit0) \<rparr>"

text \<open>A Termux installation without a network: every process ends with a non-zero exit
  status.\<close>

definition termux_offline_world :: world where
  "termux_offline_world =
     ready_world
       \<lparr> process_exit := (\<lambda>argv. ExitNonzero),
         termux_dir_exists := True,
         setup_path := (\<lambda>name. ''/data/data/com.termux/files/home/'' @ name) \<rparr>"

section \<open>Properties of \<open>update_env_file\<close>\<close>

lemma concat_readlines: "concat (readlines s) = s"
  by (induction s) (auto split: list.splits)

lemma readlines_nonempty: "l \<in> set (readlines s) \<Longrightarrow> l \<noteq> []"
  by (induction s arbitrary: l) (auto split: list.splits if_splits)

lemma update_first_length:
  "length (fst (update_first k v ls)) = length ls"
  by (induction ls) (auto split: prod.splits)

lemma update_first_no_match:
  "\<forall>l \<in> set ls. \<not> key_line k l \<Longrightarrow> update_first k v ls = (ls, False)"
  by (induction ls) (auto simp: key_line_def)

lemma update_first_match:
  "i < length ls \<Longrightarrow> key_line k (ls ! i) \<Longrightarrow> \<forall>j < i. \<not> key_line k (ls ! j)
    \<Longrightarrow> update_first k v ls = (ls[i := env_line k v], True)"
proof (induction ls arbitrary: i)
  case Nil
  then show ?case by simp
next
  case (Cons l ls)
  show ?case
  proof (cases i)
    case 0
    with Cons.prems show ?thesis by (simp add: key_line_def)
  next
    case (Suc n)
    from Cons.prems Suc have first: "\<not> key_line k l" by auto
    from Cons.prems Suc have "\<forall>j < n. \<not> key_line k (ls ! j)" by auto
    with Cons.IH [of n] Cons.prems Suc
    have "update_first k v ls = (ls[n := env_line k v], True)" by simp
    with first Suc show ?thesis by (simp add: key_line_def)
  qed
qed

text \<open>On the list of lines that \<open>readlines\<close> returns, the update is what the comment in the
  source announces: the first line of the key is replaced in place, every other line and
  the number of lines stay; with no line of the key, one line is added at the end.\<close>

lemma update_lines_replaces:
  assumes "i < length ls" and "key_line k (ls ! i)" and "\<forall>j < i. \<not> key_line k (ls ! j)"
  shows "update_lines k v ls = ls[i := env_line k v]"
  using update_first_match [OF assms] by (simp add: update_lines_def)

lemma update_lines_appends:
  assumes "\<forall>l \<in> set ls. \<not> key_line k l"
  shows "update_lines k v ls = ls @ [env_line k v]"
  using update_first_no_match [OF assms] by (simp add: update_lines_def)

text \<open>On the text of the file, a key that is absent is added as a line of its own when the
  text is empty or ends with a newline.\<close>

lemma readlines_append_line:
  "s = [] \<or> last s = CHR ''\<newline>'' \<Longrightarrow> CHR ''\<newline>'' \<notin> set l
    \<Longrightarrow> readlines (s @ l @ ''\<newline>'') = readlines s @ [l @ ''\<newline>'']"
proof (induction s)
  case Nil
  have "readlines (l @ ''\<newline>'') = [l @ ''\<newline>'']" if "CHR ''\<newline>'' \<notin> set l" for l
    using that by (induction l) auto
  with Nil show ?case by simp
next
  case (Cons c s)
  show ?case
  proof (cases "s = []")
    case True
    with Cons.prems have "c = CHR ''\<newline>''" by simp
    with True Cons show ?thesis by simp
  next
    case False
    with Cons.prems have "last s = CHR ''\<newline>''" by simp
    with Cons have IH: "readlines (s @ l @ ''\<newline>'') = readlines s @ [l @ ''\<newline>'']" by simp
    from False have "readlines s \<noteq> []" by (cases s) (auto split: list.splits)
    with IH show ?thesis by (auto split: list.splits)
  qed
qed

lemma update_env_file_appends:
  assumes "\<forall>l \<in> set (readlines text). \<not> key_line k l"
    and "text = [] \<or> last text = CHR ''\<newline>''"
    and "CHR ''\<newline>'' \<notin> set (k @ ''='' @ v)"
  shows "\<exists>text'. update_env_file (Some text) k v = Some text'
           \<and> readlines text' = readlines text @ [env_line k v]"
proof -
  have "update_env_file (Some text) k v = Some (text @ (k @ ''='' @ v) @ ''\<newline>'')"
    using update_lines_appends [OF assms(1)]
    by (simp add: update_env_file_def writelines_def concat_readlines env_line_def)
  moreover have "readlines (text @ (k @ ''='' @ v) @ ''\<newline>'')
      = readlines text @ [(k @ ''='' @ v) @ ''\<newline>'']"
    using assms(2,3) by (rule readlines_append_line)
  ultimately show ?thesis by (simp add: env_line_def)
qed

text \<open>
  C9. When the credentials file does not exist, \<open>update_env_file\<close> does nothing: whatever
  the key and the value, it returns normally, and the file still does not exist afterwards
  (nothing is created and nothing is written).
\<close>

theorem update_env_file_missing_file:
  "update_env_file None key_name key_value = None"
  by (simp add: update_env_file_def)

text \<open>
  C5. The claim: a key that no line of the file starts with is added as exactly one new
  line, and every other line stays as it was. The code misses the file whose last line has
  no newline: for the file \<open>HEADLESS=false\<close> and the key \<open>GEMINI_API_KEY\<close> with the value
  \<open>abc\<close>, \<open>lines.append\<close> puts the new text behind the unterminated line, and the file
  written is the single line \<open>HEADLESS=falseGEMINI_API_KEY=abc\<close>. The file has one line
  before and one line after, the line of the unrelated key \<open>HEADLESS\<close> has changed, and
  still no line starts with \<open>GEMINI_API_KEY=\<close>.
\<close>

theorem update_env_file_unterminated_last_line:
  "update_env_file (Some ''HEADLESS=false'') ''GEMINI_API_KEY'' ''abc''
     = Some ''HEADLESS=falseGEMINI_API_KEY=abc\<newline>''
   \<and> readlines ''HEADLESS=false'' = [''HEADLESS=false'']
   \<and> readlines ''HEADLESS=falseGEMINI_API_KEY=abc\<newline>''
       = [''HEADLESS=falseGEMINI_API_KEY=abc\<newline>'']
   \<and> \<not> key_line ''GEMINI_API_KEY'' ''HEADLESS=false''
   \<and> \<not> key_line ''GEMINI_API_KEY'' ''HEADLESS=falseGEMINI_API_KEY=abc\<newline>''"
  by (simp add: update_env_file_def update_lines_def writelines_def env_line_def key_line_def)


section \<open>Properties of the launcher\<close>

subsection \<open>Computations\<close>

lemma and_then_Inr [simp]: "and_then (t, Inr x) f = (t @ fst (f x), snd (f x))"
  by (simp add: and_then_def split: prod.splits)

lemma and_then_Inl [simp]: "and_then (t, Inl e) f = (t, Inl e)"
  by (simp add: and_then_def)

lemma try_except_Inr [simp]: "try_except (t, Inr x) handles h = (t, Inr x)"
  by (simp add: try_except_def)

lemma try_except_Inl [simp]:
  "try_except (t, Inl e) handles h = (if handles e then (t @ fst (h e), snd (h e)) else (t, Inl e))"
  by (simp add: try_except_def split: prod.splits)

lemma fst_and_then:
  "fst (and_then m f) = (case snd m of Inl e \<Rightarrow> fst m | Inr x \<Rightarrow> fst m @ fst (f x))"
  by (cases m) (auto simp: and_then_def split: sum.splits prod.splits)

lemma snd_and_then:
  "snd (and_then m f) = (case snd m of Inl e \<Rightarrow> Inl e | Inr x \<Rightarrow> snd (f x))"
  by (cases m) (auto simp: and_then_def split: sum.splits prod.splits)

lemmas comp_defs = ret_def raise_def emit_def py_print_def import_module_def
  import_after_pip_def subprocess_run_def new_chat_model_def

subsection \<open>One branch of \<open>get_llm_instance\<close>\<close>

lemma chat_client_ready:
  assumes "chat_model_init w m = None"
    and "module_found w module \<or>
       (process_exit w [sys_executable w, ''-m'', ''pip'', ''install'', package] = Exit0 \<and>
        module_found_after_pip w module)"
  shows "snd (chat_client w module package m label) = Inr (m, label)"
  using assms by (auto simp: chat_client_def comp_defs)

lemma chat_client_not_ready:
  assumes "\<not> (chat_model_init w m = None \<and>
     (module_found w module \<or>
       (process_exit w [sys_executable w, ''-m'', ''pip'', ''install'', package] = Exit0 \<and>
        module_found_after_pip w module)))"
  shows "\<exists>e. snd (chat_client w module package m label) = Inl e"
  using assms by (auto simp: chat_client_def comp_defs split: proc_outcome.splits option.splits)

lemma chat_client_trace:
  assumes "ev \<in> set (fst (chat_client w module package m label))"
  shows "ev = NewChatModel m \<or>
         ev = Subprocess [sys_executable w, ''-m'', ''pip'', ''install'', package]"
  using assms
  by (auto simp: chat_client_def comp_defs split: proc_outcome.splits option.splits if_splits)

subsection \<open>The selected branch\<close>

lemma highest_priority_cases:
  "highest_priority cs =
     (if configured cs Gemini then Some Gemini
      else if configured cs Groq then Some Groq
      else if configured cs OpenAI then Some OpenAI
      else if configured cs Anthropic then Some Anthropic
      else None)"
  by (simp add: highest_priority_def priority_order_def)

lemma configured_providers_cases:
  "configured_providers cs =
     (if configured cs Gemini then [Gemini] else []) @
     (if configured cs Groq then [Groq] else []) @
     (if configured cs OpenAI then [OpenAI] else []) @
     (if configured cs Anthropic then [Anthropic] else [])"
  by (simp add: configured_providers_def priority_order_def)

lemma highest_priority_hd:
  "configured_providers cs \<noteq> [] \<Longrightarrow> highest_priority cs = Some (hd (configured_providers cs))"
  by (simp add: highest_priority_cases configured_providers_cases split: if_splits)

lemma highest_priority_None:
  "configured_providers cs = [] \<Longrightarrow> highest_priority cs = None"
  by (simp add: highest_priority_cases configured_providers_cases split: if_splits)

lemma get_llm_instance_branch:
  assumes "highest_priority (credential_set w environ) = Some p"
  shows "snd (get_llm_instance w environ) =
     and_then (emit LoadDotenv) (\<lambda>_.
       chat_client w (provider_module p) (provider_package p)
         (provider_llm p (credential_set w environ (env_var p))) (provider_label p))"
  using assms
  by (cases p)
     (auto simp: get_llm_instance_def highest_priority_cases configured_def credential_set_def
        Let_def split: if_splits)

lemma get_llm_instance_no_key:
  assumes "highest_priority (credential_set w environ) = None"
  shows "snd (get_llm_instance w environ) = ([LoadDotenv], Inl (ValueError no_key_message))"
  using assms
  by (auto simp: get_llm_instance_def highest_priority_cases configured_def credential_set_def
        Let_def emit_def raise_def split: if_splits)

lemma selection_ready:
  assumes "highest_priority (credential_set w environ) = Some p"
    and "client_ready w p (credential_set w environ (env_var p))"
  shows "selection_result w environ =
           Inr (provider_llm p (credential_set w environ (env_var p)), provider_label p)"
  using assms(2) chat_client_ready
  by (simp add: selection_result_def get_llm_instance_branch [OF assms(1)] emit_def
        client_ready_def)

lemma selection_not_ready:
  assumes "highest_priority (credential_set w environ) = Some p"
    and "\<not> client_ready w p (credential_set w environ (env_var p))"
  shows "\<exists>e. selection_result w environ = Inl e"
  using assms(2) chat_client_not_ready
  by (simp add: selection_result_def get_llm_instance_branch [OF assms(1)] emit_def
        client_ready_def)

lemma selection_trace:
  assumes "highest_priority (credential_set w environ) = Some p"
    and "ev \<in> set (fst (snd (get_llm_instance w environ)))"
  shows "ev = LoadDotenv \<or> ev = NewChatModel (provider_llm p (credential_set w environ (env_var p)))
       \<or> ev = Subprocess [sys_executable w, ''-m'', ''pip'', ''install'', provider_package p]"
  using assms(2)
  by (auto simp: get_llm_instance_branch [OF assms(1)] emit_def dest: chat_client_trace)


subsection \<open>The task runner\<close>

lemma selection_trace_counts:
  "count_list (fst (snd (get_llm_instance w environ))) LoadDotenv = 1 \<and>
   count_list (fst (snd (get_llm_instance w environ))) AwaitArun = 0 \<and>
   filter (\<lambda>ev. is_NewBrowser ev \<or> is_NewAgent ev) (fst (snd (get_llm_instance w environ))) = []"
proof (cases "highest_priority (credential_set w environ)")
  case None
  then show ?thesis by (simp add: get_llm_instance_no_key)
next
  case (Some p)
  let ?c = "chat_client w (provider_module p) (provider_package p)
         (provider_llm p (credential_set w environ (env_var p))) (provider_label p)"
  have tr: "fst (snd (get_llm_instance w environ)) = LoadDotenv # fst ?c"
    by (simp add: get_llm_instance_branch [OF Some] emit_def)
  have "LoadDotenv \<notin> set (fst ?c)" "AwaitArun \<notin> set (fst ?c)"
    by (auto dest: chat_client_trace)
  moreover have "filter (\<lambda>ev. is_NewBrowser ev \<or> is_NewAgent ev) (fst ?c) = []"
    by (auto simp: filter_empty_conv dest: chat_client_trace)
  ultimately show ?thesis by (simp add: tr)
qed

text \<open>\<open>int\<close> skips the blanks 9 to 13, 32, 133 and 160 and raises on the characters 28 to
  31.\<close>

lemma int_blanks:
  "parse_int 4300 ('' 42'' @ [CHR 0xA0]) = IntValue 42"
  "parse_int 4300 [CHR 0x1F, CHR ''4'', CHR ''2''] = InvalidLiteral"
  by (simp_all add: parse_int_def int_strip_def int_blank_def split_sign_def literal_char_def
        unsigned_literal_def py_isdigit_def digit_value_def)

lemma slow_mo_setting_trace: "fst (slow_mo_setting w environ) = []"
  by (simp add: slow_mo_setting_def py_int_def ret_def raise_def
        split: option.splits int_parse.splits)

lemma slow_mo_setting_value:
  "snd (slow_mo_setting w environ) = Inr n \<Longrightarrow>
     (environ ''BROWSER_SLOW_MO'' = None \<longrightarrow> n = 1000) \<and>
     (\<forall>s. environ ''BROWSER_SLOW_MO'' = Some s \<longrightarrow>
          parse_int (int_max_str_digits w) s = IntValue n)"
  by (auto simp: slow_mo_setting_def py_int_def ret_def raise_def
        split: option.splits int_parse.splits)

lemmas agent_defs = py_print_def emit_def ret_def raise_def new_browser_def new_agent_def
  await_arun_def

lemma run_agent_unfold:
  "run_agent w environ task headless (m, provider) =
     (case snd (slow_mo_setting w environ) of
        Inl e \<Rightarrow> ([Print (''Using '' @ provider)], Inl e)
      | Inr n \<Rightarrow>
          (let kw = [(''headless'', PBool headless), (''slow_mo'', PInt n)] in
           case browser_init w kw of
             Some e \<Rightarrow> ([Print (''Using '' @ provider), NewBrowser kw], Inl e)
           | None \<Rightarrow>
              (case agent_init w task m kw of
                 Some e \<Rightarrow> ([Print (''Using '' @ provider), NewBrowser kw, NewAgent task m kw], Inl e)
               | None \<Rightarrow>
                  (case agent_arun w task m kw of
                     Inl e \<Rightarrow>
                       ([Print (''Using '' @ provider), NewBrowser kw, NewAgent task m kw,
                         Print (''Running task: '' @ task), AwaitArun], Inl e)
                   | Inr result \<Rightarrow>
                       ([Print (''Using '' @ provider), NewBrowser kw, NewAgent task m kw,
                         Print (''Running task: '' @ task), AwaitArun,
                         Print ''Task completed!'', Print (''Result: '' @ result)],
                        Inr result)))))"
proof -
  obtain r where s: "slow_mo_setting w environ = ([], r)"
    using slow_mo_setting_trace [of w environ] by (cases "slow_mo_setting w environ") simp
  show ?thesis
    by (cases r) (simp_all add: run_agent_def s agent_defs Let_def split: option.splits sum.splits)
qed


lemma get_llm_instance_env: "fst (get_llm_instance w environ) = credential_set w environ"
  by (simp add: get_llm_instance_def credential_set_def Let_def)

lemma task_without_modules:
  assumes "\<not> modules_found w"
  shows "\<exists>name. task_trace w environ task headless
              = [Print (''Task failed: '' @ exn_str (ImportError name))]"
    and "task_result w environ task headless = None"
  using assms
  by (auto simp: modules_found_def task_trace_def task_result_def run_automation_task_def
        task_try_block_def raise_def)

lemma task_not_selected:
  assumes "modules_found w" and "selection_result w environ = Inl e"
  shows "task_trace w environ task headless
           = fst (snd (get_llm_instance w environ)) @ [Print (''Task failed: '' @ exn_str e)]"
    and "task_result w environ task headless = None"
  using assms
  by (auto simp: modules_found_def task_trace_def task_result_def run_automation_task_def
        task_try_block_def selection_result_def and_then_def split: prod.splits sum.splits)

lemma task_selected:
  assumes "modules_found w" and "selection_result w environ = Inr sel"
  shows "task_trace w environ task headless
           = fst (snd (get_llm_instance w environ))
             @ fst (run_agent w (credential_set w environ) task headless sel)
             @ (case snd (run_agent w (credential_set w environ) task headless sel) of
                  Inl e \<Rightarrow> [Print (''Task failed: '' @ exn_str e)] | Inr result \<Rightarrow> [])"
    and "task_result w environ task headless
           = (case snd (run_agent w (credential_set w environ) task headless sel) of
                Inl e \<Rightarrow> None | Inr result \<Rightarrow> Some result)"
  using assms get_llm_instance_env [of w environ]
  by (auto simp: modules_found_def task_trace_def task_result_def run_automation_task_def
        task_try_block_def selection_result_def and_then_def split: prod.splits sum.splits)

lemma run_agent_counts:
  "count_list (fst (run_agent w environ task headless sel)) AwaitArun \<le> 1 \<and>
   count_list (fst (run_agent w environ task headless sel)) LoadDotenv = 0"
  by (cases sel) (simp add: run_agent_unfold Let_def split: sum.splits option.splits)

lemma run_agent_browser:
  assumes "NewBrowser kwargs \<in> set (fst (run_agent w environ task headless sel))"
  shows "\<exists>n. snd (slow_mo_setting w environ) = Inr n \<and>
             kwargs = [(''headless'', PBool headless), (''slow_mo'', PInt n)]"
  using assms
  by (cases sel) (auto simp: run_agent_unfold Let_def split: sum.splits option.splits)

lemma task_trace_counts:
  "count_list (task_trace w environ task headless) AwaitArun \<le> 1 \<and>
   count_list (task_trace w environ task headless) LoadDotenv \<le> 1"
proof (cases "modules_found w")
  case False
  from task_without_modules(1) [OF False, of environ task headless]
  show ?thesis by auto
next
  case True
  show ?thesis
  proof (cases "selection_result w environ")
    case (Inl e)
    show ?thesis
      using selection_trace_counts [of w environ]
      by (simp add: task_not_selected(1) [OF True Inl])
  next
    case (Inr sel)
    show ?thesis
      using selection_trace_counts [of w environ]
        run_agent_counts [of w "credential_set w environ" task headless sel]
      by (simp add: task_selected(1) [OF True Inr] split: sum.splits)
  qed
qed


subsection \<open>The properties of the specification\<close>

lemmas example_defs = ready_world_def offline_world_def failing_run_world_def two_keys_env_def
  openai_only_env_def no_keys_env_def placeholder_env_def termux_env_def bad_slow_mo_env_def
  placeholder_key_def

text \<open>
  C1 (amended). The credential set is the environment that \<open>get_llm_instance\<close> reads after
  \<open>load_dotenv(override=True)\<close>. When two or more of the four provider variables hold a
  non-empty value, the branch taken is the one of the highest-priority provider \<open>p\<close> in
  the order Gemini, Groq, OpenAI, Anthropic. \<open>get_llm_instance\<close> returns the client of \<open>p\<close>,
  built with the value of its variable, and the label of \<open>p\<close>, whenever the client library
  of \<open>p\<close> is ready (the module is imported at once or after a successful \<open>pip install\<close>,
  and the constructor accepts the arguments); otherwise it raises. It never builds the
  client of another provider.
\<close>

theorem highest_priority_provider_selected:
  assumes "cs = credential_set w environ" and "2 \<le> length (configured_providers cs)"
  shows "\<exists>p. highest_priority cs = Some p \<and> p = hd (configured_providers cs) \<and>
           (client_ready w p (cs (env_var p)) \<longrightarrow>
              selection_result w environ = Inr (provider_llm p (cs (env_var p)), provider_label p)) \<and>
           (\<not> client_ready w p (cs (env_var p)) \<longrightarrow> (\<exists>e. selection_result w environ = Inl e)) \<and>
           (\<forall>m. NewChatModel m \<in> set (fst (snd (get_llm_instance w environ))) \<longrightarrow>
              m = provider_llm p (cs (env_var p)))"
proof -
  from assms(2) have ne: "configured_providers cs \<noteq> []" by auto
  define p where "p = hd (configured_providers cs)"
  have hp: "highest_priority (credential_set w environ) = Some p"
    using highest_priority_hd [OF ne] by (simp add: p_def assms(1))
  have "\<forall>m. NewChatModel m \<in> set (fst (snd (get_llm_instance w environ))) \<longrightarrow>
          m = provider_llm p (cs (env_var p))"
    using selection_trace [OF hp] by (auto simp: assms(1))
  with hp selection_ready [OF hp] selection_not_ready [OF hp] show ?thesis
    by (auto simp: assms(1) p_def)
qed

text \<open>Gemini and Groq are both configured on a machine where everything is installed:
  Gemini is returned.\<close>

theorem highest_priority_provider_selected_witness:
  "2 \<le> length (configured_providers (credential_set ready_world two_keys_env)) \<and>
   highest_priority (credential_set ready_world two_keys_env) = Some Gemini \<and>
   client_ready ready_world Gemini (Some ''AIza-demo'') \<and>
   selection_result ready_world two_keys_env
     = Inr (provider_llm Gemini (Some ''AIza-demo''), ''Gemini (FREE)'')"
proof -
  have two: "2 \<le> length (configured_providers (credential_set ready_world two_keys_env))"
    by (simp add: configured_providers_cases configured_def truthy_def credential_set_def
          example_defs)
  have key: "credential_set ready_world two_keys_env (env_var Gemini) = Some ''AIza-demo''"
    by (simp add: credential_set_def example_defs)
  have ready: "client_ready ready_world Gemini (Some ''AIza-demo'')"
    by (simp add: client_ready_def example_defs)
  have hd: "hd (configured_providers (credential_set ready_world two_keys_env)) = Gemini"
    by (simp add: configured_providers_cases configured_def truthy_def credential_set_def
          example_defs)
  from highest_priority_provider_selected [OF refl two]
  show ?thesis using two key ready hd by auto
qed

text \<open>
  C1 as stated fails where the client library cannot be had: with Gemini and Groq
  configured, the module \<open>langchain_google_genai\<close> missing and \<open>pip install\<close> failing,
  \<open>subprocess.run(..., check=True)\<close> raises \<open>CalledProcessError\<close> out of
  \<open>get_llm_instance\<close>, which returns no provider.
\<close>

theorem highest_priority_provider_not_returned:
  "length (configured_providers (credential_set offline_world two_keys_env)) = 2 \<and>
   highest_priority (credential_set offline_world two_keys_env) = Some Gemini \<and>
   selection_result offline_world two_keys_env
     = Inl (CalledProcessError
              [''/usr/bin/python3'', ''-m'', ''pip'', ''install'', ''langchain-google-genai''])"
  by (simp add: configured_providers_cases highest_priority_cases configured_def truthy_def
        credential_set_def selection_result_def get_llm_instance_def chat_client_def comp_defs
        example_defs)


text \<open>
  C2 (amended). When exactly one of the four provider variables holds a non-empty value,
  the branch of that provider \<open>p\<close> is taken: \<open>get_llm_instance\<close> returns the client and
  the label of \<open>p\<close> whenever the client library of \<open>p\<close> is ready, and raises otherwise; it
  builds the client of no other provider.
\<close>

theorem single_provider_selected:
  assumes "cs = credential_set w environ" and "configured_providers cs = [p]"
  shows "highest_priority cs = Some p \<and>
         (client_ready w p (cs (env_var p)) \<longrightarrow>
            selection_result w environ = Inr (provider_llm p (cs (env_var p)), provider_label p)) \<and>
         (\<not> client_ready w p (cs (env_var p)) \<longrightarrow> (\<exists>e. selection_result w environ = Inl e)) \<and>
         (\<forall>m. NewChatModel m \<in> set (fst (snd (get_llm_instance w environ))) \<longrightarrow>
            m = provider_llm p (cs (env_var p)))"
proof -
  have hp: "highest_priority (credential_set w environ) = Some p"
    using highest_priority_hd [of cs] assms by simp
  have "\<forall>m. NewChatModel m \<in> set (fst (snd (get_llm_instance w environ))) \<longrightarrow>
          m = provider_llm p (cs (env_var p))"
    using selection_trace [OF hp] by (auto simp: assms(1))
  with hp selection_ready [OF hp] selection_not_ready [OF hp] show ?thesis
    by (auto simp: assms(1))
qed

text \<open>Only \<open>OPENAI_API_KEY\<close> is non-empty (\<open>GEMINI_API_KEY\<close> is set to the empty string):
  OpenAI is returned.\<close>

theorem single_provider_selected_witness:
  "configured_providers (credential_set ready_world openai_only_env) = [OpenAI] \<and>
   client_ready ready_world OpenAI (Some ''sk-demo'') \<and>
   selection_result ready_world openai_only_env
     = Inr (provider_llm OpenAI (Some ''sk-demo''), ''OpenAI GPT-4'')"
proof -
  have one: "configured_providers (credential_set ready_world openai_only_env) = [OpenAI]"
    by (simp add: configured_providers_cases configured_def truthy_def credential_set_def
          example_defs)
  have key: "credential_set ready_world openai_only_env (env_var OpenAI) = Some ''sk-demo''"
    by (simp add: credential_set_def example_defs)
  have ready: "client_ready ready_world OpenAI (Some ''sk-demo'')"
    by (simp add: client_ready_def example_defs)
  from single_provider_selected [OF refl one]
  show ?thesis using one key ready by auto
qed

text \<open>
  C2 as stated fails in the same way: with only OpenAI configured, \<open>langchain_openai\<close>
  missing and \<open>pip install\<close> failing, \<open>get_llm_instance\<close> raises \<open>CalledProcessError\<close>.
\<close>

theorem single_provider_not_returned:
  "configured_providers (credential_set offline_world openai_only_env) = [OpenAI] \<and>
   selection_result offline_world openai_only_env
     = Inl (CalledProcessError
              [''/usr/bin/python3'', ''-m'', ''pip'', ''install'', ''langchain-openai''])"
  by (simp add: configured_providers_cases configured_def truthy_def
        credential_set_def selection_result_def get_llm_instance_def chat_client_def comp_defs
        example_defs)

text \<open>
  C3. When no provider variable of the credential set holds a non-empty value,
  \<open>get_llm_instance\<close> raises \<open>ValueError\<close> with the missing-credential message. The task
  runner then returns \<open>None\<close>, its trace has no \<open>Browser\<close> and no \<open>Agent\<close> construction
  and no await of \<open>arun\<close>, and the last thing it does is print \<open>Task failed: ...\<close>; when the
  two imports of browser-use succeed, the message printed is the missing-credential one.
\<close>

theorem no_credentials_no_agent:
  assumes "configured_providers (credential_set w environ) = []"
  shows "selection_result w environ = Inl (ValueError no_key_message) \<and>
         task_result w environ task headless = None \<and>
         filter (\<lambda>ev. is_NewBrowser ev \<or> is_NewAgent ev) (task_trace w environ task headless) = [] \<and>
         count_list (task_trace w environ task headless) AwaitArun = 0 \<and>
         (\<exists>e. last (task_trace w environ task headless) = Print (''Task failed: '' @ exn_str e)) \<and>
         (modules_found w \<longrightarrow>
            task_trace w environ task headless
              = [LoadDotenv, Print (''Task failed: '' @ no_key_message)])"
proof -
  have none: "highest_priority (credential_set w environ) = None"
    using assms by (rule highest_priority_None)
  have sel: "selection_result w environ = Inl (ValueError no_key_message)"
    by (simp add: selection_result_def get_llm_instance_no_key [OF none])
  show ?thesis
  proof (cases "modules_found w")
    case True
    have tr: "task_trace w environ task headless
                = [LoadDotenv, Print (''Task failed: '' @ exn_str (ValueError no_key_message))]"
      by (simp add: task_not_selected(1) [OF True sel] get_llm_instance_no_key [OF none])
    have "last (task_trace w environ task headless)
            = Print (''Task failed: '' @ exn_str (ValueError no_key_message))"
      by (simp add: tr)
    then have "\<exists>e. last (task_trace w environ task headless)
                  = Print (''Task failed: '' @ exn_str e)" ..
    with tr task_not_selected(2) [OF True sel, of task headless] sel show ?thesis
      by simp
  next
    case False
    from task_without_modules(1) [OF False, of environ task headless]
    obtain name where tr: "task_trace w environ task headless
        = [Print (''Task failed: '' @ exn_str (ImportError name))]" by blast
    have "last (task_trace w environ task headless)
            = Print (''Task failed: '' @ exn_str (ImportError name))"
      by (simp add: tr)
    then have ex: "\<exists>e. last (task_trace w environ task headless)
                  = Print (''Task failed: '' @ exn_str e)" ..
    from tr have "filter (\<lambda>ev. is_NewBrowser ev \<or> is_NewAgent ev)
                    (task_trace w environ task headless) = []"
      and "count_list (task_trace w environ task headless) AwaitArun = 0"
      by simp_all
    with ex sel False task_without_modules(2) [OF False, of environ task headless]
    show ?thesis by simp
  qed
qed

text \<open>The environment of the file written by \<open>setup_api_keys\<close>, where all four keys are
  empty.\<close>

theorem no_credentials_no_agent_witness:
  "configured_providers (credential_set ready_world no_keys_env) = [] \<and>
   selection_result ready_world no_keys_env = Inl (ValueError no_key_message) \<and>
   task_result ready_world no_keys_env ''open example.com'' False = None \<and>
   task_trace ready_world no_keys_env ''open example.com'' False
     = [LoadDotenv, Print (''Task failed: '' @ no_key_message)]"
proof -
  have none: "configured_providers (credential_set ready_world no_keys_env) = []"
    by (simp add: configured_providers_cases configured_def truthy_def credential_set_def
          example_defs)
  have found: "modules_found ready_world"
    by (simp add: modules_found_def example_defs)
  from no_credentials_no_agent [OF none, of "''open example.com''" False]
  show ?thesis using none found by simp
qed

text \<open>Which provider is selected depends on the values of the four variables only
  through their being empty or not.\<close>

lemma selection_ignores_content:
  assumes "\<forall>p. truthy (cs1 (env_var p)) = truthy (cs2 (env_var p))"
  shows "highest_priority cs1 = highest_priority cs2"
proof -
  have "configured cs1 p = configured cs2 p" for p
    using assms by (simp add: configured_def)
  then show ?thesis by (simp add: highest_priority_cases)
qed

text \<open>
  C10 (amended). \<open>get_llm_instance\<close> looks at no more of a secret than whether it is empty.
  When the variable of provider \<open>p\<close> holds any non-empty string \<open>v\<close>, the value counts as a
  configured credential; and when no provider before \<open>p\<close> in the priority order is
  configured, \<open>p\<close> is the provider selected: the function behaves as the branch of \<open>p\<close> with
  \<open>v\<close> itself as the key, in every world, and returns that client when the client library
  is ready.
\<close>

theorem nonempty_value_selects_provider:
  assumes "cs = credential_set w environ"
    and "cs (env_var p) = Some v" and "v \<noteq> []"
    and "\<forall>q \<in> set (takeWhile (\<lambda>q. q \<noteq> p) priority_order). \<not> configured cs q"
  shows "configured cs p \<and>
         highest_priority cs = Some p \<and>
         snd (get_llm_instance w environ) =
           and_then (emit LoadDotenv) (\<lambda>_.
             chat_client w (provider_module p) (provider_package p)
               (provider_llm p (Some v)) (provider_label p)) \<and>
         (client_ready w p (Some v) \<longrightarrow>
            selection_result w environ = Inr (provider_llm p (Some v), provider_label p))"
proof -
  have conf: "configured cs p"
    using assms(2,3) by (simp add: configured_def truthy_def)
  have hp: "highest_priority (credential_set w environ) = Some p"
    using conf assms(4)
    by (cases p) (auto simp: highest_priority_cases priority_order_def assms(1))
  from get_llm_instance_branch [OF hp] selection_ready [OF hp] hp conf assms(1,2)
  show ?thesis by simp
qed

text \<open>The placeholder \<open>your_gemini_api_key_here\<close> that the setup scripts write selects
  Gemini and is handed to the client as its key.\<close>

theorem nonempty_value_selects_provider_witness:
  "credential_set ready_world placeholder_env (env_var Gemini) = Some ''your_gemini_api_key_here'' \<and>
   highest_priority (credential_set ready_world placeholder_env) = Some Gemini \<and>
   selection_result ready_world placeholder_env
     = Inr (ChatModel ''ChatGoogleGenerativeAI''
              [(''model'', Some ''gemini-1.5-flash''),
               (''google_api_key'', Some ''your_gemini_api_key_here'')],
            ''Gemini (FREE)'')"
proof -
  have val: "credential_set ready_world placeholder_env (env_var Gemini)
               = Some ''your_gemini_api_key_here''"
    by (simp add: credential_set_def example_defs)
  have ne: "''your_gemini_api_key_here'' \<noteq> []" by simp
  have higher: "\<forall>q \<in> set (takeWhile (\<lambda>q. q \<noteq> Gemini) priority_order).
                  \<not> configured (credential_set ready_world placeholder_env) q"
    by (simp add: priority_order_def)
  have ready: "client_ready ready_world Gemini (Some ''your_gemini_api_key_here'')"
    by (simp add: client_ready_def example_defs)
  from nonempty_value_selects_provider [OF refl val ne higher]
  show ?thesis using val ready by simp
qed


text \<open>
  C10 as stated fails for a provider that is not the first one configured: with
  \<open>GEMINI_API_KEY\<close> and \<open>GROQ_API_KEY\<close> both non-empty, the value of \<open>GROQ_API_KEY\<close> does
  not select Groq; Gemini is returned.
\<close>

theorem lower_priority_value_not_selected:
  "credential_set ready_world two_keys_env (env_var Groq) = Some ''gsk-demo'' \<and>
   ''gsk-demo'' \<noteq> [] \<and>
   selection_result ready_world two_keys_env
     = Inr (provider_llm Gemini (Some ''AIza-demo''), ''Gemini (FREE)'') \<and>
   provider_llm Gemini (Some ''AIza-demo'') \<noteq> provider_llm Groq (Some ''gsk-demo'')"
  by (simp add: credential_set_def selection_result_def get_llm_instance_def chat_client_def
        comp_defs truthy_def example_defs)

text \<open>
  C4 (amended). In every invocation of \<open>run_automation_task\<close>, \<open>agent.arun()\<close> is awaited
  at most once and \<open>get_llm_instance\<close> is entered at most once. With a valid provider, a
  non-empty task, the imports of browser-use succeeding, \<open>BROWSER_SLOW_MO\<close> absent or a
  text that \<open>int\<close> accepts, and the \<open>Browser\<close> and \<open>Agent\<close> constructors succeeding, \<open>arun\<close> is
  awaited exactly once and the provider is selected exactly once; an error raised by \<open>arun\<close>
  is caught, printed as \<open>Task failed: ...\<close> last, and the runner returns \<open>None\<close> (no
  retry); a result is returned as it is.
\<close>

theorem arun_awaited_once:
  "count_list (task_trace w environ task headless) AwaitArun \<le> 1 \<and>
   count_list (task_trace w environ task headless) LoadDotenv \<le> 1 \<and>
   (modules_found w \<and> selection_result w environ = Inr (m, provider) \<and> task \<noteq> [] \<and>
    snd (slow_mo_setting w (credential_set w environ)) = Inr n \<and>
    browser_init w [(''headless'', PBool headless), (''slow_mo'', PInt n)] = None \<and>
    agent_init w task m [(''headless'', PBool headless), (''slow_mo'', PInt n)] = None \<longrightarrow>
      count_list (task_trace w environ task headless) AwaitArun = 1 \<and>
      count_list (task_trace w environ task headless) LoadDotenv = 1 \<and>
      (\<forall>e. agent_arun w task m [(''headless'', PBool headless), (''slow_mo'', PInt n)] = Inl e \<longrightarrow>
           task_result w environ task headless = None \<and>
           last (task_trace w environ task headless) = Print (''Task failed: '' @ exn_str e)) \<and>
      (\<forall>result. agent_arun w task m [(''headless'', PBool headless), (''slow_mo'', PInt n)]
                  = Inr result \<longrightarrow>
           task_result w environ task headless = Some result))"
proof -
  have "count_list (task_trace w environ task headless) AwaitArun = 1 \<and>
      count_list (task_trace w environ task headless) LoadDotenv = 1 \<and>
      (\<forall>e. agent_arun w task m [(''headless'', PBool headless), (''slow_mo'', PInt n)] = Inl e \<longrightarrow>
           task_result w environ task headless = None \<and>
           last (task_trace w environ task headless) = Print (''Task failed: '' @ exn_str e)) \<and>
      (\<forall>result. agent_arun w task m [(''headless'', PBool headless), (''slow_mo'', PInt n)]
                  = Inr result \<longrightarrow>
           task_result w environ task headless = Some result)"
    if found: "modules_found w" and sel: "selection_result w environ = Inr (m, provider)"
      and slow: "snd (slow_mo_setting w (credential_set w environ)) = Inr n"
      and br: "browser_init w [(''headless'', PBool headless), (''slow_mo'', PInt n)] = None"
      and ag: "agent_init w task m [(''headless'', PBool headless), (''slow_mo'', PInt n)] = None"
    using selection_trace_counts [of w environ]
    by (cases "agent_arun w task m [(''headless'', PBool headless), (''slow_mo'', PInt n)]")
       (simp_all add: task_selected [OF found sel] run_agent_unfold slow br ag Let_def
          del: exn_str.simps)
  with task_trace_counts [of w environ task headless] show ?thesis by blast
qed

text \<open>The agent's run raises: one await, one selection, the failure printed.\<close>

theorem arun_awaited_once_witness:
  "modules_found failing_run_world \<and>
   selection_result failing_run_world two_keys_env
     = Inr (provider_llm Gemini (Some ''AIza-demo''), ''Gemini (FREE)'') \<and>
   count_list (task_trace failing_run_world two_keys_env ''open example.com'' False) AwaitArun = 1 \<and>
   count_list (task_trace failing_run_world two_keys_env ''open example.com'' False) LoadDotenv = 1 \<and>
   task_result failing_run_world two_keys_env ''open example.com'' False = None \<and>
   last (task_trace failing_run_world two_keys_env ''open example.com'' False)
     = Print ''Task failed: page crashed''"
proof -
  let ?kw = "[(''headless'', PBool False), (''slow_mo'', PInt 1000)]"
  have found: "modules_found failing_run_world"
    by (simp add: modules_found_def example_defs)
  have sel: "selection_result failing_run_world two_keys_env
     = Inr (provider_llm Gemini (Some ''AIza-demo''), ''Gemini (FREE)'')"
    by (simp add: selection_result_def get_llm_instance_def chat_client_def comp_defs truthy_def
          example_defs)
  have slow: "snd (slow_mo_setting failing_run_world (credential_set failing_run_world two_keys_env)) = Inr 1000"
    by (simp add: slow_mo_setting_def credential_set_def ret_def example_defs)
  have br: "browser_init failing_run_world ?kw = None"
    and ag: "agent_init failing_run_world ''open example.com''
               (provider_llm Gemini (Some ''AIza-demo'')) ?kw = None"
    and run: "agent_arun failing_run_world ''open example.com''
               (provider_llm Gemini (Some ''AIza-demo'')) ?kw = Inl (LibraryError ''page crashed'')"
    by (simp_all add: example_defs)
  have task: "''open example.com'' \<noteq> []" by simp
  from arun_awaited_once [of failing_run_world two_keys_env "''open example.com''" False
      "provider_llm Gemini (Some ''AIza-demo'')" "''Gemini (FREE)''" 1000]
    found sel slow br ag run task
  show ?thesis by simp
qed

text \<open>
  C4 as stated fails: with a valid provider (Gemini) and a non-empty task, but
  \<open>BROWSER_SLOW_MO=fast\<close>, \<open>int(...)\<close> raises \<open>ValueError\<close> before the browser is built,
  and \<open>arun\<close> is not awaited at all.
\<close>

theorem arun_not_awaited:
  "selection_result ready_world bad_slow_mo_env
     = Inr (provider_llm Gemini (Some ''AIza-demo''), ''Gemini (FREE)'') \<and>
   ''open example.com'' \<noteq> [] \<and>
   count_list (task_trace ready_world bad_slow_mo_env ''open example.com'' False) AwaitArun = 0 \<and>
   task_result ready_world bad_slow_mo_env ''open example.com'' False = None"
proof -
  have found: "modules_found ready_world"
    by (simp add: modules_found_def example_defs)
  have sel: "selection_result ready_world bad_slow_mo_env
     = Inr (provider_llm Gemini (Some ''AIza-demo''), ''Gemini (FREE)'')"
    by (simp add: selection_result_def get_llm_instance_def chat_client_def comp_defs truthy_def
          example_defs)
  have "parse_int 4300 ''fast'' = InvalidLiteral"
    by (simp add: parse_int_def int_strip_def int_blank_def split_sign_def literal_char_def
          unsigned_literal_def py_isdigit_def)
  then have slow: "\<exists>e. snd (slow_mo_setting ready_world (credential_set ready_world bad_slow_mo_env)) = Inl e"
    by (simp add: slow_mo_setting_def credential_set_def py_int_def raise_def example_defs)
  then obtain e where e: "snd (slow_mo_setting ready_world (credential_set ready_world bad_slow_mo_env)) = Inl e" ..
  show ?thesis
    using selection_trace_counts [of ready_world bad_slow_mo_env]
    by (simp add: task_selected [OF found sel] run_agent_unfold e sel del: exn_str.simps)
qed


lemma selection_trace_no_browser:
  "NewBrowser kwargs \<notin> set (fst (snd (get_llm_instance w environ)))"
proof
  assume mem: "NewBrowser kwargs \<in> set (fst (snd (get_llm_instance w environ)))"
  have "is_NewBrowser (NewBrowser kwargs)" by simp
  with mem have "NewBrowser kwargs \<in> set (filter (\<lambda>ev. is_NewBrowser ev \<or> is_NewAgent ev)
                 (fst (snd (get_llm_instance w environ))))"
    by simp
  with selection_trace_counts [of w environ] show False by simp
qed

lemma task_trace_browser:
  assumes mem: "NewBrowser kwargs \<in> set (task_trace w environ task headless)"
  shows "\<exists>sel. NewBrowser kwargs
           \<in> set (fst (run_agent w (credential_set w environ) task headless sel))"
proof (cases "modules_found w")
  case False
  from task_without_modules(1) [OF False, of environ task headless] mem show ?thesis by auto
next
  case True
  show ?thesis
  proof (cases "selection_result w environ")
    case (Inl e)
    from mem selection_trace_no_browser [of kwargs w environ] show ?thesis
      by (simp add: task_not_selected(1) [OF True Inl])
  next
    case (Inr sel)
    from mem selection_trace_no_browser [of kwargs w environ]
    have "NewBrowser kwargs
            \<in> set (fst (run_agent w (credential_set w environ) task headless sel))"
      by (cases "snd (run_agent w (credential_set w environ) task headless sel)")
         (simp_all add: task_selected(1) [OF True Inr])
    then show ?thesis ..
  qed
qed

text \<open>Whenever the task runner constructs a browser, the keyword arguments are exactly
  \<open>headless\<close>, the \<open>headless\<close> argument of the call, and \<open>slow_mo\<close>, the integer read from
  \<open>BROWSER_SLOW_MO\<close>: 1000 when the variable is absent, the value of \<open>int\<close> of its text
  otherwise. No timeout is passed.\<close>

lemma browser_keyword_arguments:
  "NewBrowser kwargs \<in> set (task_trace w environ task headless) \<longrightarrow>
     (\<exists>n. kwargs = [(''headless'', PBool headless), (''slow_mo'', PInt n)] \<and>
          snd (slow_mo_setting w (credential_set w environ)) = Inr n \<and>
          (credential_set w environ ''BROWSER_SLOW_MO'' = None \<longrightarrow> n = 1000) \<and>
          (\<forall>s. credential_set w environ ''BROWSER_SLOW_MO'' = Some s \<longrightarrow>
               parse_int (int_max_str_digits w) s = IntValue n))"
proof
  assume "NewBrowser kwargs \<in> set (task_trace w environ task headless)"
  then obtain sel where "NewBrowser kwargs
           \<in> set (fst (run_agent w (credential_set w environ) task headless sel))"
    using task_trace_browser by blast
  then obtain n where n: "snd (slow_mo_setting w (credential_set w environ)) = Inr n"
    and kw: "kwargs = [(''headless'', PBool headless), (''slow_mo'', PInt n)]"
    using run_agent_browser by blast
  from slow_mo_setting_value [OF n] n kw
  show "\<exists>n. kwargs = [(''headless'', PBool headless), (''slow_mo'', PInt n)] \<and>
          snd (slow_mo_setting w (credential_set w environ)) = Inr n \<and>
          (credential_set w environ ''BROWSER_SLOW_MO'' = None \<longrightarrow> n = 1000) \<and>
          (\<forall>s. credential_set w environ ''BROWSER_SLOW_MO'' = Some s \<longrightarrow>
               parse_int (int_max_str_digits w) s = IntValue n)"
    by (intro exI [of _ n]) simp
qed


lemma termux_env_trace:
  "task_trace ready_world termux_env ''open example.com'' False =
     [LoadDotenv,
      NewChatModel (provider_llm Gemini (Some ''AIza-demo'')),
      Print ''Using Gemini (FREE)'',
      NewBrowser [(''headless'', PBool False), (''slow_mo'', PInt 2000)],
      NewAgent ''open example.com'' (provider_llm Gemini (Some ''AIza-demo''))
        [(''headless'', PBool False), (''slow_mo'', PInt 2000)],
      Print ''Running task: open example.com'',
      AwaitArun,
      Print ''Task completed!'',
      Print ''Result: done'']"
proof -
  have found: "modules_found ready_world"
    by (simp add: modules_found_def example_defs)
  have sel: "get_llm_instance ready_world termux_env
     = (termux_env, [LoadDotenv, NewChatModel (provider_llm Gemini (Some ''AIza-demo''))],
        Inr (provider_llm Gemini (Some ''AIza-demo''), ''Gemini (FREE)''))"
    by (simp add: get_llm_instance_def chat_client_def comp_defs truthy_def example_defs)
  have lit: "parse_int 4300 ''2000'' = IntValue 2000"
    by (simp add: parse_int_def int_strip_def int_blank_def split_sign_def literal_char_def
          unsigned_literal_def py_isdigit_def digit_value_def)
  have slow: "slow_mo_setting ready_world (credential_set ready_world termux_env) = ([], Inr 2000)"
    by (simp add: slow_mo_setting_def credential_set_def py_int_def lit ret_def example_defs)
  have res: "selection_result ready_world termux_env
          = Inr (provider_llm Gemini (Some ''AIza-demo''), ''Gemini (FREE)'')"
    by (simp add: selection_result_def sel)
  have browser: "browser_init ready_world kw = None"
    and agent: "agent_init ready_world task m kw = None"
    and run: "agent_arun ready_world task m kw = Inr ''done''" for kw task m
    by (simp_all add: example_defs)
  show ?thesis
    by (simp add: task_selected(1) [OF found res] sel run_agent_unfold slow browser agent run
          Let_def)
qed

text \<open>
  C6. The claim: the headless flag, the slow-down value and the timeout that the task
  runner passes to the browser are taken from \<open>HEADLESS\<close>, \<open>BROWSER_SLOW_MO\<close> and
  \<open>BROWSER_TIMEOUT\<close>. The code reads \<open>BROWSER_SLOW_MO\<close> only. With \<open>HEADLESS=true\<close>,
  \<open>BROWSER_TIMEOUT=60000\<close> and \<open>BROWSER_SLOW_MO=2000\<close> in the environment,
  \<open>run_automation_task(task)\<close> builds its one browser with \<open>headless=False\<close>, the default
  of its parameter, with \<open>slow_mo=2000\<close>, and with no timeout, although the \<open>.env\<close>
  templates that the scripts write present \<open>HEADLESS\<close> next to \<open>BROWSER_SLOW_MO\<close> as a
  browser setting.
\<close>

theorem browser_ignores_headless_and_timeout:
  "termux_env ''HEADLESS'' = Some ''true'' \<and>
   termux_env ''BROWSER_TIMEOUT'' = Some ''60000'' \<and>
   filter is_NewBrowser (task_trace ready_world termux_env ''open example.com'' False)
     = [NewBrowser [(''headless'', PBool False), (''slow_mo'', PInt 2000)]]"
  by (simp add: termux_env_trace) (simp add: termux_env_def)

lemma selection_reads_keys_only:
  assumes "\<forall>p. credential_set w e1 (env_var p) = credential_set w e2 (env_var p)"
  shows "snd (get_llm_instance w e1) = snd (get_llm_instance w e2)"
proof -
  from assms [rule_format, of Gemini] assms [rule_format, of Groq]
    assms [rule_format, of OpenAI] assms [rule_format, of Anthropic]
  show ?thesis
    by (simp add: get_llm_instance_def credential_set_def Let_def)
qed

lemma run_agent_reads_slow_mo_only:
  assumes "e1 ''BROWSER_SLOW_MO'' = e2 ''BROWSER_SLOW_MO''"
  shows "run_agent w e1 task headless sel = run_agent w e2 task headless sel"
  using assms by (simp add: run_agent_def slow_mo_setting_def)

text \<open>The trace and the result of the task runner depend on the environment through the
  four key variables and \<open>BROWSER_SLOW_MO\<close> only: \<open>HEADLESS\<close> and \<open>BROWSER_TIMEOUT\<close> are
  never read.\<close>

lemma task_ignores_other_variables:
  assumes keys: "\<forall>p. credential_set w e1 (env_var p) = credential_set w e2 (env_var p)"
    and slow: "credential_set w e1 ''BROWSER_SLOW_MO'' = credential_set w e2 ''BROWSER_SLOW_MO''"
  shows "task_trace w e1 task headless = task_trace w e2 task headless \<and>
         task_result w e1 task headless = task_result w e2 task headless"
proof -
  have sel: "snd (get_llm_instance w e1) = snd (get_llm_instance w e2)"
    using keys by (rule selection_reads_keys_only)
  have env: "fst (get_llm_instance w e1) = credential_set w e1"
    "fst (get_llm_instance w e2) = credential_set w e2"
    by (simp_all add: get_llm_instance_env)
  have agent: "run_agent w (credential_set w e1) task headless
             = run_agent w (credential_set w e2) task headless"
    using run_agent_reads_slow_mo_only [of "credential_set w e1" "credential_set w e2"] slow
    by auto
  have "snd (task_try_block w e1 task headless) = snd (task_try_block w e2 task headless)"
    using sel env agent
    by (cases "get_llm_instance w e1"; cases "get_llm_instance w e2")
       (simp add: task_try_block_def)
  then show ?thesis
    by (cases "task_try_block w e1 task headless"; cases "task_try_block w e2 task headless")
       (auto simp: task_trace_def task_result_def run_automation_task_def split: sum.splits)
qed


section \<open>Properties of the setup drivers\<close>

text \<open>When every step returns, the loop runs all of them in order and records the names of
  those that return \<open>False\<close>; a step that raises ends the loop at once.\<close>

lemma run_steps_returning:
  assumes "\<forall>step \<in> set steps. \<exists>t ok. snd step = (t, Inr ok)"
  shows "run_steps steps failed =
           (concat (map (\<lambda>step. fst (snd step)) steps),
            Inr (failed @ map fst (filter (\<lambda>step. snd (snd step) = Inr False) steps)))"
  using assms
proof (induction steps arbitrary: failed)
  case Nil
  then show ?case by (simp add: ret_def)
next
  case (Cons step steps)
  obtain name t ok where step: "step = (name, t, Inr ok)"
    using Cons.prems by (cases step) auto
  from Cons.prems have "\<forall>step \<in> set steps. \<exists>t ok. snd step = (t, Inr ok)" by simp
  from Cons.IH [OF this] show ?case by (simp add: step)
qed

lemma run_steps_raising:
  assumes "\<forall>step \<in> set before. \<exists>t ok. snd step = (t, Inr ok)"
  shows "run_steps (before @ (name, t, Inl e) # rest) failed =
           (concat (map (\<lambda>step. fst (snd step)) before) @ t, Inl e)"
  using assms
proof (induction before arbitrary: failed)
  case Nil
  then show ?case by simp
next
  case (Cons step before)
  obtain name' t' ok where step: "step = (name', t', Inr ok)"
    using Cons.prems by (cases step) auto
  from Cons.prems have "\<forall>step \<in> set before. \<exists>t ok. snd step = (t, Inr ok)" by simp
  from Cons.IH [OF this] show ?case by (simp add: step)
qed

lemmas setup_defs = check_python_version_def install_uv_def setup_install_browser_use_def
  install_chromium_def setup_env_file_def create_demo_script_def create_advanced_script_def
  first_word_def version_less_def py_isspace_def subprocess_run_shell_def write_file_def

lemma no_uv_python_check:
  "check_python_version no_uv_world =
     ([Print ''Checking Python version...'', Print ''Python 3.11.4 - Compatible!''], Inr True)"
  by (simp add: setup_defs comp_defs example_defs no_uv_world_def)

lemma no_uv_install_uv:
  "install_uv no_uv_world =
     ([Print ''\<newline>Installing UV package manager...'',
       Subprocess [''uv'', ''--version''],
       Subprocess [''/bin/sh'', ''-c'', ''curl'', ''-LsSf'', ''https://astral.sh/uv/install.sh''],
       Print (''Failed to install UV: '' @ exn_str (CalledProcessError
         [''curl'', ''-LsSf'', ''https://astral.sh/uv/install.sh''])),
       Print ''Please install UV manually from: https://github.com/astral-sh/uv''],
      Inr False)"
  by (simp add: setup_defs comp_defs example_defs no_uv_world_def)

lemma no_uv_install_browser_use:
  "setup_install_browser_use no_uv_world =
     ([Print ''\<newline>Installing browser-use...'',
       Subprocess [''uv'', ''pip'', ''install'', ''browser-use'']],
      Inl (FileNotFoundError ''uv''))"
  by (simp add: setup_defs comp_defs example_defs no_uv_world_def)

text \<open>
  C7. The claim: a failing setup step prevents no later step from running, every step of
  the list is executed, and the failures are reported together at the end. The code
  misses it on a Linux machine without \<open>uv\<close>: the step \<open>UV Package Manager\<close> fails and
  returns \<open>False\<close>; the next step starts \<open>uv\<close>, and \<open>install_browser_use\<close> catches
  \<open>CalledProcessError\<close> only, not the \<open>FileNotFoundError\<close> that \<open>install_uv\<close> does catch
  for the same program. The exception leaves \<open>run_full_setup\<close>: the four steps after
  \<open>Browser-Use Installation\<close> never run, and nothing is reported.
\<close>

theorem full_setup_aborts_without_uv:
  "map fst (full_setup_steps no_uv_world)
     = [''Python Version Check'', ''UV Package Manager'', ''Browser-Use Installation'',
        ''Chromium Installation'', ''Environment Setup'', ''Demo Script Creation'',
        ''Advanced Script Creation''] \<and>
   snd (install_uv no_uv_world) = Inr False \<and>
   run_full_setup no_uv_world =
     ([Print ''Browser-Use Complete Setup'',
       Print (replicate 50 (CHR ''='')),
       Print ''Checking Python version...'',
       Print ''Python 3.11.4 - Compatible!'',
       Print ''\<newline>Installing UV package manager...'',
       Subprocess [''uv'', ''--version''],
       Subprocess [''/bin/sh'', ''-c'', ''curl'', ''-LsSf'', ''https://astral.sh/uv/install.sh''],
       Print (''Failed to install UV: '' @ exn_str (CalledProcessError
         [''curl'', ''-LsSf'', ''https://astral.sh/uv/install.sh''])),
       Print ''Please install UV manually from: https://github.com/astral-sh/uv'',
       Print ''\<newline>Installing browser-use...'',
       Subprocess [''uv'', ''pip'', ''install'', ''browser-use'']],
      Inl (FileNotFoundError ''uv''))"
  by (simp add: run_full_setup_def full_setup_steps_def no_uv_python_check no_uv_install_uv
        no_uv_install_browser_use py_print_def emit_def del: exn_str.simps replicate.simps)

text \<open>
  C8. The claim: the top-level operations catch every error of installation checks and
  package-manager calls and print it. The code misses it in \<open>check_installation\<close>: when
  browser-use is installed, Playwright is not, and \<open>pip install playwright\<close> ends with a
  non-zero exit status, \<open>subprocess.run(..., check=True)\<close> stands in an \<open>except\<close> handler
  outside any \<open>try\<close>, and \<open>CalledProcessError\<close> leaves \<open>check_installation\<close> and \<open>main\<close>.
  The sibling \<open>install_browser_use\<close> catches the same error (\<open>launcher_install_catches\<close>
  below).
\<close>

theorem check_installation_raises:
  "check_installation offline_world =
     ([Print ''Checking installation...'',
       Print ''Browser-use installed'',
       Print ''Installing Playwright...'',
       Subprocess [''/usr/bin/python3'', ''-m'', ''pip'', ''install'', ''playwright'']],
      Inl (CalledProcessError [''/usr/bin/python3'', ''-m'', ''pip'', ''install'', ''playwright'']))"
  by (simp add: check_installation_def comp_defs example_defs)


lemma full_setup_records_failures:
  assumes "\<forall>step \<in> set (full_setup_steps w). \<exists>t ok. snd step = (t, Inr ok)"
  shows "snd (run_steps (full_setup_steps w) [])
           = Inr (map fst (filter (\<lambda>step. snd (snd step) = Inr False) (full_setup_steps w)))"
  by (simp add: run_steps_returning [OF assms])

lemma launcher_install_catches:
  assumes "snd (launcher_install_browser_use w) = Inl e"
  shows "is_FileNotFoundError e"
  using assms
  by (auto simp: launcher_install_browser_use_def comp_defs split: proc_outcome.splits if_splits)

text \<open>Outside Termux the environment check ends \<open>run_complete_setup\<close> with its two
  messages, and no exception.\<close>

lemma outside_termux:
  assumes "\<not> termux_dir_exists w"
  shows "run_complete_setup w =
           ([Print ''Browser-Use Setup for Termux'',
             Print (replicate 50 (CHR ''='')),
             Print ''Checking Termux environment...'',
             Print ''This script is designed for Termux on Android'',
             Print ''For PC setup, use browser_use_setup.py instead''],
            Inr ())"
  using assms
  by (simp add: run_complete_setup_def check_termux_environment_def comp_defs
        del: replicate.simps)

lemmas termux_defs = update_packages_def install_dependencies_def install_python_packages_def
  setup_playwright_def setup_display_def create_env_file_def create_termux_demo_def
  create_setup_instructions_def write_file_def announced_def

text \<open>In Termux without a network all eight steps run; the two that return \<open>False\<close> are
  recorded.\<close>

lemma termux_offline_failures:
  "snd (run_steps (map announced (complete_setup_steps termux_offline_world)) [])
     = Inr [''Package Update'', ''Python Packages'']"
  by (simp add: complete_setup_steps_def termux_defs comp_defs termux_offline_world_def
        ready_world_def del: exn_str.simps)


text \<open>Both setup scripts write the placeholder as the value of \<open>GEMINI_API_KEY\<close>.\<close>

lemma setup_scripts_write_placeholder:
  "env_line ''GEMINI_API_KEY'' placeholder_key \<in> set setup_env_content \<and>
   env_line ''GEMINI_API_KEY'' placeholder_key \<in> set termux_env_content"
  by (simp add: env_line_def placeholder_key_def setup_env_content_def termux_env_content_def)

end
